theory Spec2Isabelle
  imports Main
begin

section \<open>Floating-point values\<close>

text \<open>
  The readers compute with IEEE 754 numbers: Python floats and numpy \<open>float64\<close> are
  binary64, the grids read with \<open>dtype='>f4'\<close> or \<open>'<f4'\<close> are binary32. A finite
  value is a sign with a dyadic magnitude \<open>m * 2 ^ e\<close>, kept with \<open>m\<close> odd (zero is
  \<open>m = 0\<close>, \<open>e = 0\<close>), so that two values are the same term exactly when they are the
  same number with the same sign. The sign is \<open>True\<close> for negative.
\<close>

datatype fl = NaN | Inf bool | Fin bool nat int

datatype dtype = F32 | F64

fun prec :: "dtype \<Rightarrow> nat" where
  "prec F32 = 24"
| "prec F64 = 53"

text \<open>The exponent of the last mantissa bit: least (subnormals) and greatest.\<close>

fun lsb_min :: "dtype \<Rightarrow> int" where
  "lsb_min F32 = - 149"
| "lsb_min F64 = - 1074"

fun lsb_max :: "dtype \<Rightarrow> int" where
  "lsb_max F32 = 104"
| "lsb_max F64 = 971"

fun bitlen :: "nat \<Rightarrow> nat" where
  "bitlen n = (if n = 0 then 0 else Suc (bitlen (n div 2)))"

declare bitlen.simps [simp del]

fun odd_part :: "nat \<Rightarrow> int \<Rightarrow> nat \<times> int" where
  "odd_part m e = (if m = 0 then (0, 0) else if even m then odd_part (m div 2) (e + 1) else (m, e))"

declare odd_part.simps [simp del]

definition mk_fin :: "bool \<Rightarrow> nat \<Rightarrow> int \<Rightarrow> fl" where
  "mk_fin s m e = (case odd_part m e of (m', e') \<Rightarrow> Fin s m' e')"

text \<open>
  \<open>round_ratio dt s n d\<close> is the value of format \<open>dt\<close> nearest to \<open>n / d\<close> (\<open>d > 0\<close>),
  ties to the even mantissa, with sign \<open>s\<close>. \<open>floor_log2 n d\<close> is \<open>\<lfloor>log\<^sub>2 (n / d)\<rfloor>\<close>; the
  exponent \<open>e\<close> of the last kept bit follows from it and from the format; the quotient
  \<open>n / (d * 2 ^ e)\<close> is rounded to a natural; a result beyond the largest finite value
  is an infinity.
\<close>

definition fl2_adjust :: "nat \<Rightarrow> nat \<Rightarrow> int \<Rightarrow> int" where
  "fl2_adjust n d k =
     (if (if 0 \<le> k then d * 2 ^ nat k \<le> n else d \<le> n * 2 ^ nat (- k)) then k else k - 1)"

definition floor_log2 :: "nat \<Rightarrow> nat \<Rightarrow> int" where
  "floor_log2 n d = fl2_adjust n d (int (bitlen n) - int (bitlen d))"

definition round_half_even :: "nat \<Rightarrow> nat \<Rightarrow> nat \<Rightarrow> nat" where
  "round_half_even q r den =
     (if 2 * r < den then q else if den < 2 * r then q + 1
      else if even q then q else q + 1)"

definition round_quot :: "nat \<Rightarrow> nat \<Rightarrow> nat" where
  "round_quot num den = round_half_even (num div den) (num mod den) den"

definition finish :: "dtype \<Rightarrow> bool \<Rightarrow> int \<Rightarrow> nat \<Rightarrow> fl" where
  "finish dt s e m =
     (if lsb_max dt < e \<or> (e = lsb_max dt \<and> 2 ^ prec dt \<le> m) then Inf s
      else mk_fin s m e)"

definition round_exp :: "dtype \<Rightarrow> bool \<Rightarrow> nat \<Rightarrow> nat \<Rightarrow> int \<Rightarrow> fl" where
  "round_exp dt s n d e =
     finish dt s e
       (round_quot (if 0 \<le> e then n else n * 2 ^ nat (- e))
                   (if 0 \<le> e then d * 2 ^ nat e else d))"

definition round_ratio :: "dtype \<Rightarrow> bool \<Rightarrow> nat \<Rightarrow> nat \<Rightarrow> fl" where
  "round_ratio dt s n d =
     (if n = 0 then Fin s 0 0
      else round_exp dt s n d (max (floor_log2 n d - (int (prec dt) - 1)) (lsb_min dt)))"

text \<open>The exact value of a finite number as a ratio of naturals.\<close>

definition ratio_num :: "nat \<Rightarrow> int \<Rightarrow> nat" where
  "ratio_num m e = (if 0 \<le> e then m * 2 ^ nat e else m)"

definition ratio_den :: "int \<Rightarrow> nat" where
  "ratio_den e = (if 0 \<le> e then 1 else 2 ^ nat (- e))"

text \<open>A conversion between formats (\<open>astype\<close>, and the casts numpy inserts).\<close>

fun fl_cast :: "dtype \<Rightarrow> fl \<Rightarrow> fl" where
  "fl_cast dt NaN = NaN"
| "fl_cast dt (Inf s) = Inf s"
| "fl_cast dt (Fin s m e) = round_ratio dt s (ratio_num m e) (ratio_den e)"

fun fl_neg :: "fl \<Rightarrow> fl" where
  "fl_neg NaN = NaN"
| "fl_neg (Inf s) = Inf (\<not> s)"
| "fl_neg (Fin s m e) = Fin (\<not> s) m e"

fun fl_abs :: "fl \<Rightarrow> fl" where
  "fl_abs NaN = NaN"
| "fl_abs (Inf s) = Inf False"
| "fl_abs (Fin s m e) = Fin False m e"

fun fl_mul :: "dtype \<Rightarrow> fl \<Rightarrow> fl \<Rightarrow> fl" where
  "fl_mul dt NaN y = NaN"
| "fl_mul dt x NaN = NaN"
| "fl_mul dt (Inf s) (Inf t) = Inf (s \<noteq> t)"
| "fl_mul dt (Inf s) (Fin t m e) = (if m = 0 then NaN else Inf (s \<noteq> t))"
| "fl_mul dt (Fin s m e) (Inf t) = (if m = 0 then NaN else Inf (s \<noteq> t))"
| "fl_mul dt (Fin s m e) (Fin t n f) =
     round_ratio dt (s \<noteq> t) (ratio_num (m * n) (e + f)) (ratio_den (e + f))"

text \<open>
  The signed integer \<open>v\<close> with \<open>x = v * 2 ^ c\<close> for a finite \<open>x = \<plusminus> m * 2 ^ e\<close> and a common
  exponent \<open>c \<le> e\<close>.
\<close>

definition scaled :: "bool \<Rightarrow> nat \<Rightarrow> int \<Rightarrow> int \<Rightarrow> int" where
  "scaled s m e c = (if s then - 1 else 1) * int m * 2 ^ nat (e - c)"

definition add_round :: "dtype \<Rightarrow> bool \<Rightarrow> int \<Rightarrow> int \<Rightarrow> fl" where
  "add_round dt z c v =
     (if v = 0 then Fin z 0 0
      else round_ratio dt (v < 0) (ratio_num (nat \<bar>v\<bar>) c) (ratio_den c))"

text \<open>
  Addition: the exact sum \<open>v * 2 ^ c\<close> is rounded; an exact zero sum is \<open>-0\<close> only when
  both operands are negative (so both are \<open>-0\<close>), as round-to-nearest prescribes.
\<close>

fun fl_add :: "dtype \<Rightarrow> fl \<Rightarrow> fl \<Rightarrow> fl" where
  "fl_add dt NaN y = NaN"
| "fl_add dt x NaN = NaN"
| "fl_add dt (Inf s) (Inf t) = (if s = t then Inf s else NaN)"
| "fl_add dt (Inf s) (Fin t m e) = Inf s"
| "fl_add dt (Fin s m e) (Inf t) = Inf t"
| "fl_add dt (Fin s m e) (Fin t n f) =
     add_round dt (s \<and> t) (min e f) (scaled s m e (min e f) + scaled t n f (min e f))"

definition fl_sub :: "dtype \<Rightarrow> fl \<Rightarrow> fl \<Rightarrow> fl" where
  "fl_sub dt x y = fl_add dt x (fl_neg y)"

text \<open>Division as numpy does it: a zero divisor gives an infinity or NaN, not an exception.\<close>

fun fl_div :: "dtype \<Rightarrow> fl \<Rightarrow> fl \<Rightarrow> fl" where
  "fl_div dt NaN y = NaN"
| "fl_div dt x NaN = NaN"
| "fl_div dt (Inf s) (Inf t) = NaN"
| "fl_div dt (Inf s) (Fin t m e) = Inf (s \<noteq> t)"
| "fl_div dt (Fin s m e) (Inf t) = Fin (s \<noteq> t) 0 0"
| "fl_div dt (Fin s m e) (Fin t n f) =
     (if n = 0 then (if m = 0 then NaN else Inf (s \<noteq> t))
      else round_ratio dt (s \<noteq> t) (ratio_num m e * ratio_den f) (ratio_num n f * ratio_den e))"

fun is_nan :: "fl \<Rightarrow> bool" where
  "is_nan NaN = True"
| "is_nan x = False"

fun is_zero :: "fl \<Rightarrow> bool" where
  "is_zero (Fin s m e) = (m = 0)"
| "is_zero x = False"

text \<open>The comparisons \<open>==\<close> and \<open><\<close> of IEEE 754: false on NaN, and the two zeros are equal.\<close>

fun fl_eq :: "fl \<Rightarrow> fl \<Rightarrow> bool" where
  "fl_eq NaN y = False"
| "fl_eq x NaN = False"
| "fl_eq (Fin s m e) (Fin t n f) = ((m = 0 \<and> n = 0) \<or> (s = t \<and> m = n \<and> e = f))"
| "fl_eq x y = (x = y)"

fun fl_lt :: "fl \<Rightarrow> fl \<Rightarrow> bool" where
  "fl_lt NaN y = False"
| "fl_lt x NaN = False"
| "fl_lt (Inf s) (Inf t) = (s \<and> \<not> t)"
| "fl_lt (Inf s) (Fin t n f) = s"
| "fl_lt (Fin s m e) (Inf t) = (\<not> t)"
| "fl_lt (Fin s m e) (Fin t n f) = (scaled s m e (min e f) < scaled t n f (min e f))"

definition fl_of_int :: "int \<Rightarrow> fl" where
  "fl_of_int i = round_ratio F64 (i < 0) (nat \<bar>i\<bar>) 1"

text \<open>The float literals of the source, as the binary64 values Python reads them as.\<close>

definition fl_zero :: fl where
  "fl_zero = Fin False 0 0"

definition fl_neg_zero :: fl where
  "fl_neg_zero = Fin True 0 0"

definition fl_one :: fl where
  "fl_one = Fin False 1 0"

definition fl_1em2 :: fl where
  "fl_1em2 = Fin False 5764607523034235 (- 59)"

definition fl_1e3 :: fl where
  "fl_1e3 = Fin False 125 3"

definition fl_1e4 :: fl where
  "fl_1e4 = Fin False 625 4"

definition fl_110e3 :: fl where
  "fl_110e3 = Fin False 6875 4"

definition fl_90 :: fl where
  "fl_90 = Fin False 45 1"

section \<open>Python values and exceptions\<close>

text \<open>
  Every exception the modelled code can raise is a value. \<open>ImportError\<close> carries the
  arguments it was built with (one formatted message, or a format string and a path
  where the source passes them separately), \<open>KeyError\<close> the key, \<open>IOError\<close> the path.
\<close>

datatype exn =
    ImportError "string list"
  | IOError string
  | ValueError
  | TypeError
  | AttributeError
  | KeyError string
  | IndexError
  | ZeroDivisionError
  | OverflowError
  | UnboundLocalError
  | ParseError
  | OutOfRangeError

datatype level = Debug | Warning

type_synonym ('k, 'v) dict = "('k \<times> 'v) list"

fun dict_get :: "('k, 'v) dict \<Rightarrow> 'k \<Rightarrow> 'v option" where
  "dict_get [] k = None"
| "dict_get ((k', v) # d) k = (if k = k' then Some v else dict_get d k)"

fun dict_set :: "'k \<Rightarrow> 'v \<Rightarrow> ('k, 'v) dict \<Rightarrow> ('k, 'v) dict" where
  "dict_set k v [] = [(k, v)]"
| "dict_set k v ((k', v') # d) = (if k = k' then (k, v) # d else (k', v') # dict_set k v d)"

subsection \<open>Characters and strings\<close>

definition ord :: "char \<Rightarrow> nat" where
  "ord c = of_char c"

definition is_digit :: "char \<Rightarrow> bool" where
  "is_digit c = (48 \<le> ord c \<and> ord c \<le> 57)"

definition is_alpha :: "char \<Rightarrow> bool" where
  "is_alpha c = ((65 \<le> ord c \<and> ord c \<le> 90) \<or> (97 \<le> ord c \<and> ord c \<le> 122))"

text \<open>Python's whitespace: space, tab, newline, carriage return, vertical tab, form feed.\<close>

definition is_space :: "char \<Rightarrow> bool" where
  "is_space c = (ord c = 32 \<or> (9 \<le> ord c \<and> ord c \<le> 13))"

text \<open>The code of a character after \<open>lower()\<close>, for comparisons that ignore case.\<close>

definition lower_ord :: "char \<Rightarrow> nat" where
  "lower_ord c = (if 65 \<le> ord c \<and> ord c \<le> 90 then ord c + 32 else ord c)"

definition eq_nocase :: "string \<Rightarrow> string \<Rightarrow> bool" where
  "eq_nocase u v = (map lower_ord u = map lower_ord v)"

definition strip :: "string \<Rightarrow> string" where
  "strip s = rev (dropWhile is_space (rev (dropWhile is_space s)))"

fun digits_val :: "nat \<Rightarrow> string \<Rightarrow> nat" where
  "digits_val a [] = a"
| "digits_val a (c # cs) = digits_val (10 * a + (ord c - 48)) cs"

text \<open>\<open>a in b\<close> on strings: \<open>a\<close> occurs in \<open>b\<close> as a contiguous piece.\<close>

fun starts_with :: "string \<Rightarrow> string \<Rightarrow> bool" where
  "starts_with [] s = True"
| "starts_with (p # ps) [] = False"
| "starts_with (p # ps) (c # cs) = (p = c \<and> starts_with ps cs)"

fun py_in :: "string \<Rightarrow> string \<Rightarrow> bool" where
  "py_in a [] = (a = [])"
| "py_in a (c # cs) = (starts_with a (c # cs) \<or> py_in a cs)"

text \<open>The slice \<open>s[-4:]\<close>: the last four characters, or all of a shorter string.\<close>

definition last4 :: "string \<Rightarrow> string" where
  "last4 s = drop (length s - 4) s"

subsection \<open>\<open>float(s)\<close> and \<open>int(s)\<close> on strings\<close>

text \<open>
  \<open>float\<close> strips whitespace, takes a sign, and reads \<open>inf\<close>, \<open>infinity\<close> or \<open>nan\<close> in any
  case, or a decimal numeral with an optional fraction and exponent; the decimal value
  is rounded correctly to binary64. Anything else is a \<open>ValueError\<close>, here \<open>None\<close>.
\<close>

definition dec_to_fl :: "bool \<Rightarrow> nat \<Rightarrow> int \<Rightarrow> fl" where
  "dec_to_fl s m e =
     (if 0 \<le> e then round_ratio F64 s (m * 10 ^ nat e) 1
      else round_ratio F64 s m (10 ^ nat (- e)))"

text \<open>The exponent part, after the mantissa digits: empty, or \<open>e\<close>, a sign and digits.\<close>

definition exp_digits :: "bool \<Rightarrow> string \<Rightarrow> int option" where
  "exp_digits neg ds =
     (if ds \<noteq> [] \<and> list_all is_digit ds
      then Some ((if neg then - 1 else 1) * int (digits_val 0 ds)) else None)"

fun exp_part :: "string \<Rightarrow> int option" where
  "exp_part [] = Some 0"
| "exp_part (c # cs) =
     (if c = CHR ''e'' \<or> c = CHR ''E'' then
        (case cs of
           [] \<Rightarrow> None
         | d # ds \<Rightarrow>
             if d = CHR ''-'' then exp_digits True ds
             else if d = CHR ''+'' then exp_digits False ds
             else exp_digits False cs)
      else None)"

definition decimal_parts :: "bool \<Rightarrow> string \<Rightarrow> string \<Rightarrow> string \<Rightarrow> fl option" where
  "decimal_parts s ip fp rest =
     (if ip = [] \<and> fp = [] then None
      else case exp_part rest of
             None \<Rightarrow> None
           | Some e \<Rightarrow> Some (dec_to_fl s (digits_val 0 (ip @ fp)) (e - int (length fp))))"

definition after_int :: "bool \<Rightarrow> string \<Rightarrow> string \<Rightarrow> fl option" where
  "after_int s ip r =
     (case r of
        [] \<Rightarrow> decimal_parts s ip [] []
      | c # cs \<Rightarrow>
          if c = CHR ''.'' then decimal_parts s ip (takeWhile is_digit cs) (dropWhile is_digit cs)
          else decimal_parts s ip [] r)"

definition float_unsigned :: "bool \<Rightarrow> string \<Rightarrow> fl option" where
  "float_unsigned s u =
     (if eq_nocase u ''inf'' \<or> eq_nocase u ''infinity'' then Some (Inf s)
      else if eq_nocase u ''nan'' then Some NaN
      else after_int s (takeWhile is_digit u) (dropWhile is_digit u))"

definition float_signed :: "string \<Rightarrow> fl option" where
  "float_signed t =
     (case t of
        [] \<Rightarrow> None
      | c # cs \<Rightarrow>
          if c = CHR ''-'' then float_unsigned True cs
          else if c = CHR ''+'' then float_unsigned False cs
          else float_unsigned False t)"

definition py_float :: "string \<Rightarrow> fl option" where
  "py_float s = float_signed (strip s)"

text \<open>\<open>int(s)\<close> in base ten: whitespace, a sign, and digits only.\<close>

definition int_unsigned :: "bool \<Rightarrow> string \<Rightarrow> int option" where
  "int_unsigned neg ds = exp_digits neg ds"

definition int_signed :: "string \<Rightarrow> int option" where
  "int_signed t =
     (case t of
        [] \<Rightarrow> None
      | c # cs \<Rightarrow>
          if c = CHR ''-'' then int_unsigned True cs
          else if c = CHR ''+'' then int_unsigned False cs
          else int_unsigned False t)"

definition py_int_str :: "string \<Rightarrow> int option" where
  "py_int_str s = int_signed (strip s)"

subsection \<open>Values\<close>

text \<open>
  A numpy array is its element type, its shape and its cells in row-major order. A
  Python value is \<open>None\<close>, a Python float, a numpy float scalar (which has array
  methods such as \<open>reshape\<close>), an integer, a string or an array.
\<close>

record ndarray =
  dtype :: dtype
  shape :: "nat list"
  cells :: "fl list"

datatype pyval =
    PyNone
  | PyFloat fl
  | NpFloat fl
  | PyInt int
  | PyStr string
  | PyArr ndarray

text \<open>
  \<open>int(x)\<close>: a float is truncated towards zero, NaN is a \<open>ValueError\<close> and an infinity
  an \<open>OverflowError\<close>; a string is parsed.
\<close>

fun fl_trunc :: "fl \<Rightarrow> exn + int" where
  "fl_trunc NaN = Inl ValueError"
| "fl_trunc (Inf s) = Inl OverflowError"
| "fl_trunc (Fin s m e) =
     Inr ((if s then - 1 else 1) * (if 0 \<le> e then int m * 2 ^ nat e else int m div 2 ^ nat (- e)))"

fun py_int :: "pyval \<Rightarrow> exn + int" where
  "py_int (PyFloat x) = fl_trunc x"
| "py_int (NpFloat x) = fl_trunc x"
| "py_int (PyInt i) = Inr i"
| "py_int (PyStr s) = (case py_int_str s of None \<Rightarrow> Inl ValueError | Some i \<Rightarrow> Inr i)"
| "py_int v = Inl TypeError"

text \<open>
  \<open>v * n\<close> for an integer \<open>n\<close> and \<open>a + b\<close>, as Python dispatches them on the values a
  parameter file or a metadata file can hold: floats multiply and add in binary64, an
  integer is converted to a float when it meets one, a string is repeated and strings
  are concatenated, a string and a number do not add.
\<close>

fun py_mul_int :: "pyval \<Rightarrow> int \<Rightarrow> exn + pyval" where
  "py_mul_int (PyFloat x) n = Inr (PyFloat (fl_mul F64 x (fl_of_int n)))"
| "py_mul_int (PyInt i) n = Inr (PyInt (i * n))"
| "py_mul_int (PyStr s) n = Inr (PyStr (concat (replicate (nat n) s)))"
| "py_mul_int v n = Inl TypeError"

fun py_add :: "pyval \<Rightarrow> pyval \<Rightarrow> exn + pyval" where
  "py_add (PyFloat x) (PyFloat y) = Inr (PyFloat (fl_add F64 x y))"
| "py_add (PyFloat x) (PyInt j) = Inr (PyFloat (fl_add F64 x (fl_of_int j)))"
| "py_add (PyInt i) (PyFloat y) = Inr (PyFloat (fl_add F64 (fl_of_int i) y))"
| "py_add (PyInt i) (PyInt j) = Inr (PyInt (i + j))"
| "py_add (PyStr s) (PyStr t) = Inr (PyStr (s @ t))"
| "py_add a b = Inl TypeError"

section \<open>The parameter-file pattern\<close>

text \<open>
  \<open>Gamma._parseParameterFile\<close> matches every line against
  \<^verbatim>\<open>^(\w*):\s*([a-zA-Z0-9+-.*]*\s[a-zA-Z0-9_]*).*\<close>
  The pattern uses literals, single characters of a class, greedy stars of a class and
  two groups; it is kept as data and run by a backtracking matcher. In the class
  \<^verbatim>\<open>[a-zA-Z0-9+-.*]\<close> the piece \<^verbatim>\<open>+-.\<close> is a range, from \<open>+\<close> (43) to \<open>.\<close> (46).
\<close>

datatype cclass = Word | Space | ValueChar | Ident | NotNewline

fun in_class :: "cclass \<Rightarrow> char \<Rightarrow> bool" where
  "in_class Word c = (is_alpha c \<or> is_digit c \<or> ord c = 95)"
| "in_class Space c = is_space c"
| "in_class ValueChar c = (is_alpha c \<or> is_digit c \<or> (43 \<le> ord c \<and> ord c \<le> 46) \<or> ord c = 42)"
| "in_class Ident c = (is_alpha c \<or> is_digit c \<or> ord c = 95)"
| "in_class NotNewline c = (ord c \<noteq> 10)"

datatype rx = Lit char | One cclass | Star cclass | Open | Close

definition par_pattern :: "rx list" where
  "par_pattern =
     [Open, Star Word, Close, Lit (CHR '':''), Star Space,
      Open, Star ValueChar, One Space, Star Ident, Close, Star NotNewline]"

text \<open>
  The ways a greedy star of the class \<open>p\<close> can split the input, longest match first:
  the order in which backtracking tries them.
\<close>

fun star_splits :: "(char \<Rightarrow> bool) \<Rightarrow> string \<Rightarrow> (string \<times> string) list" where
  "star_splits p [] = [([], [])]"
| "star_splits p (c # cs) =
     (if p c then map (\<lambda>(a, b). (c # a, b)) (star_splits p cs) @ [([], c # cs)]
      else [([], c # cs)])"

fun first_some :: "'a option list \<Rightarrow> 'a option" where
  "first_some [] = None"
| "first_some (None # xs) = first_some xs"
| "first_some (Some x # xs) = Some x"

definition grow :: "string option \<Rightarrow> string \<Rightarrow> string option" where
  "grow cur a = (case cur of None \<Rightarrow> None | Some g \<Rightarrow> Some (g @ a))"

definition close_group :: "string option \<Rightarrow> string" where
  "close_group cur = (case cur of None \<Rightarrow> [] | Some g \<Rightarrow> g)"

text \<open>
  \<open>rx_match rs s cur done\<close>: match the rest \<open>rs\<close> of the pattern at the rest \<open>s\<close> of the
  line; \<open>cur\<close> is the text of the group that is open, \<open>done\<close> the closed groups. The
  result is the groups of the first successful match, \<open>None\<close> when there is none.
\<close>

fun rx_match :: "rx list \<Rightarrow> string \<Rightarrow> string option \<Rightarrow> string list \<Rightarrow> string list option" where
  "rx_match [] s cur done = Some done"
| "rx_match (Open # rs) s cur done = rx_match rs s (Some []) done"
| "rx_match (Close # rs) s cur done = rx_match rs s None (done @ [close_group cur])"
| "rx_match (Lit c # rs) s cur done =
     (case s of
        [] \<Rightarrow> None
      | x # xs \<Rightarrow> if x = c then rx_match rs xs (grow cur [x]) done else None)"
| "rx_match (One cl # rs) s cur done =
     (case s of
        [] \<Rightarrow> None
      | x # xs \<Rightarrow> if in_class cl x then rx_match rs xs (grow cur [x]) done else None)"
| "rx_match (Star cl # rs) s cur done =
     first_some (map (\<lambda>(a, b). rx_match rs b (grow cur a) done) (star_splits (in_class cl) s))"

definition re_match :: "rx list \<Rightarrow> string \<Rightarrow> string list option" where
  "re_match rs line = rx_match rs line None []"

section \<open>The file system and the reader's state\<close>

text \<open>
  The file system is a listing of absolute, normalised paths, each a directory or a
  file with its bytes; the order of the listing is the order in which \<open>os.listdir\<close>,
  and so \<open>glob.glob\<close>, reports the entries. Paths given to the readers are absolute and
  normalised and there are no symbolic links, so \<open>os.path.realpath\<close> and
  \<open>os.path.abspath\<close> return their argument.
\<close>

datatype node = Dir | File string

type_synonym filesystem = "(string, node) dict"

definition realpath :: "string \<Rightarrow> string" where
  "realpath p = p"

definition abspath :: "string \<Rightarrow> string" where
  "abspath p = p"

definition is_slash :: "char \<Rightarrow> bool" where
  "is_slash c = (c = CHR ''/'')"

text \<open>
  \<open>posixpath.split\<close>: the head is everything up to the last slash, without trailing
  slashes unless it consists of slashes only; the tail is what follows the last slash.
\<close>

definition trim_head :: "string \<Rightarrow> string" where
  "trim_head h = (if h \<noteq> [] \<and> \<not> list_all is_slash h then rev (dropWhile is_slash (rev h)) else h)"

definition dirname :: "string \<Rightarrow> string" where
  "dirname p = trim_head (rev (dropWhile (\<lambda>c. \<not> is_slash c) (rev p)))"

definition basename :: "string \<Rightarrow> string" where
  "basename p = rev (takeWhile (\<lambda>c. \<not> is_slash c) (rev p))"

definition path_join :: "string \<Rightarrow> string \<Rightarrow> string" where
  "path_join a b =
     (if b \<noteq> [] \<and> is_slash (hd b) then b
      else if a = [] \<or> is_slash (last a) then a @ b
      else a @ ''/'' @ b)"

definition is_file :: "filesystem \<Rightarrow> string \<Rightarrow> bool" where
  "is_file fs p = (case dict_get fs p of Some (File b) \<Rightarrow> True | _ \<Rightarrow> False)"

definition is_dir :: "filesystem \<Rightarrow> string \<Rightarrow> bool" where
  "is_dir fs p = (case dict_get fs p of Some Dir \<Rightarrow> True | _ \<Rightarrow> False)"

text \<open>The names in a directory: the entries whose head is the directory.\<close>

fun listdir :: "filesystem \<Rightarrow> string \<Rightarrow> string list" where
  "listdir [] d = []"
| "listdir ((p, n) # fs) d =
     (if dirname p = d \<and> basename p \<noteq> [] then basename p # listdir fs d else listdir fs d)"

text \<open>
  \<open>fnmatch\<close> for the patterns of the source, which use no wildcard but \<open>*\<close>: a star
  stands for any run of characters, every other character for itself.
\<close>

fun fnmatch :: "string \<Rightarrow> string \<Rightarrow> bool" where
  "fnmatch [] s = (s = [])"
| "fnmatch (p # ps) [] = (p = CHR ''*'' \<and> fnmatch ps [])"
| "fnmatch (p # ps) (c # cs) =
     (if p = CHR ''*'' then fnmatch ps (c # cs) \<or> fnmatch (p # ps) cs
      else p = c \<and> fnmatch ps cs)"

text \<open>
  \<open>glob.glob\<close> for a pattern whose directory part has no wildcard: the entries of that
  directory whose name matches the last component, with the directory joined back on.
  A name that starts with a dot is left out unless the pattern starts with a dot. A
  directory that does not exist has no matches.
\<close>

definition shown :: "string \<Rightarrow> string \<Rightarrow> bool" where
  "shown pat name = (starts_with ''.'' pat \<or> \<not> starts_with ''.'' name)"

definition glob_in :: "filesystem \<Rightarrow> string \<Rightarrow> string \<Rightarrow> string list" where
  "glob_in fs d pat =
     (if is_dir fs d
      then map (path_join d) (filter (\<lambda>name. shown pat name \<and> fnmatch pat name) (listdir fs d))
      else [])"

definition glob :: "filesystem \<Rightarrow> string \<Rightarrow> string list" where
  "glob fs pattern = glob_in fs (dirname pattern) (basename pattern)"

text \<open>Opening a path for reading: only a file opens, anything else is an \<open>IOError\<close>.\<close>

definition read_file :: "filesystem \<Rightarrow> string \<Rightarrow> exn + string" where
  "read_file fs p = (case dict_get fs p of Some (File b) \<Rightarrow> Inr b | _ \<Rightarrow> Inl (IOError p))"

text \<open>Iterating over an open text file: the lines, each with its newline.\<close>

fun py_lines :: "string \<Rightarrow> string \<Rightarrow> string list" where
  "py_lines cur [] = (if cur = [] then [] else [cur])"
| "py_lines cur (c # cs) =
     (if ord c = 10 then (cur @ [c]) # py_lines [] cs else py_lines (cur @ [c]) cs)"

text \<open>
  \<open>SceneIO.__init__\<close>: the container every reader fills, all fields \<open>None\<close> at first.
  The state a method runs in is the reader's container, the file system and what has
  been logged so far.
\<close>

record container =
  phi :: pyval
  theta :: pyval
  displacement :: pyval
  llLon :: pyval
  llLat :: pyval
  dLat :: pyval
  dLon :: pyval

definition empty_container :: container where
  "empty_container =
     \<lparr>phi = PyNone, theta = PyNone, displacement = PyNone, llLon = PyNone,
      llLat = PyNone, dLat = PyNone, dLon = PyNone\<rparr>"

record world =
  container :: container
  disk :: filesystem
  logged :: "(level \<times> string) list"

definition log_msg :: "level \<Rightarrow> string \<Rightarrow> world \<Rightarrow> world" where
  "log_msg l m w = w\<lparr>logged := logged w @ [(l, m)]\<rparr>"

section \<open>numpy\<close>

text \<open>A binary32 value from its 32 bits.\<close>

definition f32_fields :: "bool \<Rightarrow> nat \<Rightarrow> nat \<Rightarrow> fl" where
  "f32_fields s ex man =
     (if ex = 255 then (if man = 0 then Inf s else NaN)
      else if ex = 0 then mk_fin s man (- 149)
      else mk_fin s (man + 2 ^ 23) (int ex - 150))"

definition f32_of_bits :: "nat \<Rightarrow> fl" where
  "f32_of_bits b = f32_fields (2 ^ 31 \<le> b) ((b div 2 ^ 23) mod 256) (b mod 2 ^ 23)"

definition be32 :: "char \<Rightarrow> char \<Rightarrow> char \<Rightarrow> char \<Rightarrow> nat" where
  "be32 a b c d = ((ord a * 256 + ord b) * 256 + ord c) * 256 + ord d"

text \<open>
  The items of a byte string as \<open>'>f4'\<close> (big-endian) and \<open>'<f4'\<close> (little-endian); bytes
  after the last whole item are not read.
\<close>

fun decode_be :: "string \<Rightarrow> fl list" where
  "decode_be (a # b # c # d # r) = f32_of_bits (be32 a b c d) # decode_be r"
| "decode_be r = []"

fun decode_le :: "string \<Rightarrow> fl list" where
  "decode_le (a # b # c # d # r) = f32_of_bits (be32 d c b a) # decode_le r"
| "decode_le r = []"

datatype endian = Big | Little

fun decode :: "endian \<Rightarrow> string \<Rightarrow> fl list" where
  "decode Big b = decode_be b"
| "decode Little b = decode_le b"

definition vector :: "dtype \<Rightarrow> fl list \<Rightarrow> ndarray" where
  "vector dt xs = \<lparr>dtype = dt, shape = [length xs], cells = xs\<rparr>"

text \<open>\<open>numpy.fromfile(path, dtype)\<close> reads as many whole items as the file holds.\<close>

definition np_fromfile :: "endian \<Rightarrow> filesystem \<Rightarrow> string \<Rightarrow> exn + ndarray" where
  "np_fromfile en fs p =
     (case read_file fs p of Inl e \<Rightarrow> Inl e | Inr b \<Rightarrow> Inr (vector F32 (decode en b)))"

text \<open>
  \<open>numpy.memmap(path, dtype)\<close> maps the whole file: an empty file cannot be mapped, and
  a size that is not a multiple of the item size is refused.
\<close>

definition np_memmap :: "endian \<Rightarrow> filesystem \<Rightarrow> string \<Rightarrow> exn + ndarray" where
  "np_memmap en fs p =
     (case read_file fs p of
        Inl e \<Rightarrow> Inl e
      | Inr b \<Rightarrow>
          if b = [] \<or> length b mod 4 \<noteq> 0 then Inl ValueError
          else Inr (vector F32 (decode en b)))"

text \<open>
  \<open>a.reshape(r, c)\<close> on \<open>n\<close> cells: one dimension may be \<open>-1\<close> and is then inferred;
  otherwise the product must be \<open>n\<close>. The result is the shape, or \<open>None\<close> for the
  \<open>ValueError\<close>.
\<close>

definition reshape_dims :: "nat \<Rightarrow> int \<Rightarrow> int \<Rightarrow> (nat \<times> nat) option" where
  "reshape_dims n r c =
     (if r < - 1 \<or> c < - 1 then None
      else if r = - 1 \<and> c = - 1 then None
      else if r = - 1 then
        (if c = 0 \<or> int n mod c \<noteq> 0 then None else Some (n div nat c, nat c))
      else if c = - 1 then
        (if r = 0 \<or> int n mod r \<noteq> 0 then None else Some (nat r, n div nat r))
      else if r * c = int n then Some (nat r, nat c)
      else None)"

definition np_reshape :: "ndarray \<Rightarrow> int \<Rightarrow> int \<Rightarrow> exn + ndarray" where
  "np_reshape a r c =
     (case reshape_dims (length (cells a)) r c of
        None \<Rightarrow> Inl ValueError
      | Some (nr, nc) \<Rightarrow> Inr (a\<lparr>shape := [nr, nc]\<rparr>))"

text \<open>
  \<open>x.reshape(r, c)\<close> on a Python value: an array is reshaped, a numpy scalar is an
  array of one cell, and a Python float has no such method.
\<close>

fun py_reshape :: "pyval \<Rightarrow> int \<Rightarrow> int \<Rightarrow> exn + pyval" where
  "py_reshape (PyArr a) r c = (case np_reshape a r c of Inl e \<Rightarrow> Inl e | Inr b \<Rightarrow> Inr (PyArr b))"
| "py_reshape (NpFloat x) r c =
     (case np_reshape \<lparr>dtype = F64, shape = [], cells = [x]\<rparr> r c of
        Inl e \<Rightarrow> Inl e
      | Inr b \<Rightarrow> Inr (PyArr b))"
| "py_reshape v r c = Inl AttributeError"

text \<open>\<open>a[a == v] = numpy.nan\<close>: every cell that compares equal to \<open>v\<close> becomes NaN.\<close>

definition recode :: "fl \<Rightarrow> fl \<Rightarrow> fl" where
  "recode v x = (if fl_eq x v then NaN else x)"

definition set_nan_where_eq :: "fl \<Rightarrow> ndarray \<Rightarrow> ndarray" where
  "set_nan_where_eq v a = a\<lparr>cells := map (recode v) (cells a)\<rparr>"

text \<open>
  \<open>a * c\<close> and \<open>a + c\<close> for an array and a Python float: the result has the array's
  element type, and the scalar is converted to it first.
\<close>

definition arr_mul :: "ndarray \<Rightarrow> fl \<Rightarrow> ndarray" where
  "arr_mul a c = a\<lparr>cells := map (\<lambda>x. fl_mul (dtype a) x (fl_cast (dtype a) c)) (cells a)\<rparr>"

definition arr_add :: "ndarray \<Rightarrow> fl \<Rightarrow> ndarray" where
  "arr_add a c = a\<lparr>cells := map (\<lambda>x. fl_add (dtype a) x (fl_cast (dtype a) c)) (cells a)\<rparr>"

text \<open>
  \<open>numpy.append(v, fill)\<close> with a binary64 vector \<open>fill\<close>: both are flattened and joined
  into a binary64 vector (a binary32 cell converts exactly).
\<close>

fun np_append :: "pyval \<Rightarrow> fl list \<Rightarrow> exn + ndarray" where
  "np_append (PyArr a) fill = Inr (vector F64 (cells a @ fill))"
| "np_append (PyFloat x) fill = Inr (vector F64 (x # fill))"
| "np_append (NpFloat x) fill = Inr (vector F64 (x # fill))"
| "np_append v fill = Inl TypeError"

text \<open>
  \<open>numpy.cos\<close> is outside the repository; the cosine of a cell in a given element type
  is the parameter \<open>cosf\<close>. On a Python float the result is a binary64 numpy scalar.
\<close>

fun np_cos :: "(dtype \<Rightarrow> fl \<Rightarrow> fl) \<Rightarrow> pyval \<Rightarrow> exn + pyval" where
  "np_cos cosf (PyArr a) = Inr (PyArr (a\<lparr>cells := map (cosf (dtype a)) (cells a)\<rparr>))"
| "np_cos cosf (PyFloat x) = Inr (NpFloat (cosf F64 x))"
| "np_cos cosf (NpFloat x) = Inr (NpFloat (cosf F64 x))"
| "np_cos cosf v = Inl TypeError"

text \<open>Assignments to the fields of \<open>self.container\<close>, and returning it.\<close>

definition set_phi :: "pyval \<Rightarrow> world \<Rightarrow> world" where
  "set_phi v w = w\<lparr>container := (container w)\<lparr>phi := v\<rparr>\<rparr>"

definition set_theta :: "pyval \<Rightarrow> world \<Rightarrow> world" where
  "set_theta v w = w\<lparr>container := (container w)\<lparr>theta := v\<rparr>\<rparr>"

definition set_displacement :: "pyval \<Rightarrow> world \<Rightarrow> world" where
  "set_displacement v w = w\<lparr>container := (container w)\<lparr>displacement := v\<rparr>\<rparr>"

definition set_llLon :: "pyval \<Rightarrow> world \<Rightarrow> world" where
  "set_llLon v w = w\<lparr>container := (container w)\<lparr>llLon := v\<rparr>\<rparr>"

definition set_llLat :: "pyval \<Rightarrow> world \<Rightarrow> world" where
  "set_llLat v w = w\<lparr>container := (container w)\<lparr>llLat := v\<rparr>\<rparr>"

definition set_dLat :: "pyval \<Rightarrow> world \<Rightarrow> world" where
  "set_dLat v w = w\<lparr>container := (container w)\<lparr>dLat := v\<rparr>\<rparr>"

definition set_dLon :: "pyval \<Rightarrow> world \<Rightarrow> world" where
  "set_dLon v w = w\<lparr>container := (container w)\<lparr>dLon := v\<rparr>\<rparr>"

definition return_container :: "world \<Rightarrow> (exn + container) \<times> world" where
  "return_container w = (Inr (container w), w)"

section \<open>The Gamma reader\<close>

subsection \<open>\<open>Gamma._parseParameterFile\<close>\<close>

definition required :: "string list" where
  "required = [''corner_lat'', ''corner_lon'', ''nlines'', ''width'', ''post_lat'', ''post_lon'']"

text \<open>
  One line of the file: a line that does not match is skipped; of a line that matches,
  the second group is stored under the first, as a float when \<open>float\<close> accepts it and
  as the stripped string otherwise.
\<close>

definition param_value :: "string \<Rightarrow> pyval" where
  "param_value v = (case py_float v of Some x \<Rightarrow> PyFloat x | None \<Rightarrow> PyStr (strip v))"

definition store_groups :: "(string, pyval) dict \<Rightarrow> string list \<Rightarrow> (string, pyval) dict" where
  "store_groups params groups =
     (case groups of k # v # rest \<Rightarrow> dict_set k (param_value v) params | _ \<Rightarrow> params)"

definition parse_line :: "(string, pyval) dict \<Rightarrow> string \<Rightarrow> (string, pyval) dict" where
  "parse_line params line =
     (case re_match par_pattern line of
        None \<Rightarrow> params
      | Some groups \<Rightarrow> store_groups params groups)"

text \<open>The loop over \<open>required\<close>: the first key that is missing raises.\<close>

fun check_required :: "string list \<Rightarrow> (string, pyval) dict \<Rightarrow> exn + (string, pyval) dict" where
  "check_required [] params = Inr params"
| "check_required (r # rs) params =
     (case dict_get params r of
        None \<Rightarrow> Inl (ImportError [''Parameter file does not hold required parameter '' @ r])
      | Some v \<Rightarrow> check_required rs params)"

definition Gamma_parseParameterFile :: "filesystem \<Rightarrow> string \<Rightarrow> exn + (string, pyval) dict" where
  "Gamma_parseParameterFile fs par_file =
     (case read_file fs par_file of
        Inl e \<Rightarrow> Inl e
      | Inr txt \<Rightarrow> check_required required (foldl parse_line [] (py_lines [] txt)))"

subsection \<open>\<open>Gamma._getParameterFile\<close>\<close>

text \<open>
  The first \<open>*par\<close> file of the directory that parses is returned and a debug message
  logged; an \<open>ImportError\<close> from parsing moves on to the next file, any other exception
  leaves the method.
\<close>

fun try_par_files :: "string list \<Rightarrow> world \<Rightarrow> (exn + string) \<times> world" where
  "try_par_files [] w =
     (Inl (ImportError [''Could not find suiting Gamma parameter file (*par)'']), w)"
| "try_par_files (f # rest) w =
     (case Gamma_parseParameterFile (disk w) f of
        Inr par \<Rightarrow> (Inr f, log_msg Debug (''Found parameter file '' @ f) w)
      | Inl (ImportError m) \<Rightarrow> try_par_files rest w
      | Inl e \<Rightarrow> (Inl e, w))"

definition Gamma_getParameterFile :: "string \<Rightarrow> world \<Rightarrow> (exn + string) \<times> world" where
  "Gamma_getParameterFile path w =
     try_par_files (glob (disk w) (dirname (realpath path) @ ''/*par'')) w"

subsection \<open>\<open>Gamma.validate\<close>\<close>

text \<open>
  \<open>kwargs.pop('par_file', self._getParameterFile(filename))\<close> evaluates its default
  first, so the directory is searched even when a parameter file is passed; \<open>kw\<close> is
  the \<open>par_file\<close> keyword argument, \<open>None\<close> when it is not given.
\<close>

definition pop_par_file :: "string option \<Rightarrow> string \<Rightarrow> string" where
  "pop_par_file kw dflt = (case kw of None \<Rightarrow> dflt | Some p \<Rightarrow> p)"

definition validate_par :: "string \<Rightarrow> world \<Rightarrow> (exn + bool) \<times> world" where
  "validate_par par_file w =
     (case Gamma_parseParameterFile (disk w) par_file of
        Inr par \<Rightarrow> (Inr True, w)
      | Inl (ImportError m) \<Rightarrow> (Inr False, w)
      | Inl e \<Rightarrow> (Inl e, w))"

definition Gamma_validate :: "string \<Rightarrow> string option \<Rightarrow> world \<Rightarrow> (exn + bool) \<times> world" where
  "Gamma_validate filename kw w =
     (case Gamma_getParameterFile filename w of
        (Inr dflt, w1) \<Rightarrow> validate_par (pop_par_file kw dflt) w1
      | (Inl (ImportError m), w1) \<Rightarrow> (Inr False, w1)
      | (Inl e, w1) \<Rightarrow> (Inl e, w1))"

subsection \<open>\<open>Gamma._getAngle\<close>\<close>

definition angle_of_matches :: "string \<Rightarrow> string list \<Rightarrow> world \<Rightarrow> (exn + pyval) \<times> world" where
  "angle_of_matches pattern phi_files w =
     (if length phi_files = 0 then
        (Inr (PyFloat fl_zero),
         log_msg Warning (''Could not find '' @ pattern @ '' file, defaulting to 0.'') w)
      else if 1 < length phi_files then
        (Inr (PyFloat fl_zero),
         log_msg Warning (''Found multiple '' @ pattern @ '' files, defaulting to 0.'') w)
      else
        (case np_memmap Big (disk w) (hd phi_files) of
           Inl e \<Rightarrow> Inl e
         | Inr a \<Rightarrow> Inr (PyArr a),
         log_msg Debug (''Found '' @ pattern @ '' in '' @ hd phi_files) w))"

definition Gamma_getAngle :: "string \<Rightarrow> string \<Rightarrow> world \<Rightarrow> (exn + pyval) \<times> world" where
  "Gamma_getAngle filename pattern w =
     angle_of_matches pattern
       (glob (disk w) (dirname (realpath filename) @ ''/'' @ pattern)) w"

subsection \<open>\<open>Gamma.read\<close>\<close>

text \<open>
  \<open>nrows = int(par['width'])\<close> and \<open>nlines = int(par['nlines'])\<close>; whatever goes wrong
  there is turned into an \<open>ImportError\<close> by the bare \<open>except\<close>.
\<close>

definition par_int :: "(string, pyval) dict \<Rightarrow> string \<Rightarrow> exn + int" where
  "par_int par k = (case dict_get par k of None \<Rightarrow> Inl (KeyError k) | Some v \<Rightarrow> py_int v)"

definition parse_error :: "string \<Rightarrow> exn" where
  "parse_error par_file = ImportError [''Error parsing width and nlines from '' @ par_file]"

definition read_dims :: "(string, pyval) dict \<Rightarrow> string \<Rightarrow> exn + int \<times> int" where
  "read_dims par par_file =
     (case par_int par ''width'' of
        Inl e \<Rightarrow> Inl (parse_error par_file)
      | Inr nrows \<Rightarrow>
          (case par_int par ''nlines'' of
             Inl e \<Rightarrow> Inl (parse_error par_file)
           | Inr nlines \<Rightarrow> Inr (nrows, nlines)))"

text \<open>
  The fill for a last line that was not scanned completely: none when the number of
  items is a multiple of \<open>nrows\<close>, else \<open>nrows - size % nrows\<close> cells of NaN. A zero
  \<open>nrows\<close> divides by zero, and a negative length is refused by \<open>numpy.empty\<close>.
\<close>

definition fill_cells :: "int \<Rightarrow> exn + fl list option" where
  "fill_cells k = (if k < 0 then Inl ValueError else Inr (Some (replicate (nat k) NaN)))"

definition fill_for :: "int \<Rightarrow> nat \<Rightarrow> exn + fl list option" where
  "fill_for nrows n =
     (if nrows = 0 then Inl ZeroDivisionError
      else if int n mod nrows \<noteq> 0 then fill_cells (nrows - int n mod nrows)
      else Inr None)"

definition append_fill :: "ndarray \<Rightarrow> fl list option \<Rightarrow> ndarray" where
  "append_fill displ fill =
     (case fill of None \<Rightarrow> displ | Some f \<Rightarrow> vector F64 (cells displ @ f))"

text \<open>
  The displacement grid: the items of the file, the fill appended, reshaped to
  \<open>(nlines, nrows)\<close>, and every cell equal to \<open>-0.\<close> set to NaN.
\<close>

definition shape_displ :: "ndarray \<Rightarrow> fl list option \<Rightarrow> int \<Rightarrow> int \<Rightarrow> exn + ndarray" where
  "shape_displ displ fill nlines nrows =
     (case np_reshape (append_fill displ fill) nlines nrows of
        Inl e \<Rightarrow> Inl e
      | Inr d \<Rightarrow> Inr (set_nan_where_eq fl_neg_zero d))"

text \<open>
  The angle grids after \<open>theta = num.cos(theta)\<close>: the fill is appended to both when
  there is one, then \<open>theta\<close> and after it \<open>phi\<close> are reshaped.
\<close>

definition with_fill :: "pyval \<Rightarrow> fl list option \<Rightarrow> exn + pyval" where
  "with_fill v fill =
     (case fill of
        None \<Rightarrow> Inr v
      | Some f \<Rightarrow> (case np_append v f of Inl e \<Rightarrow> Inl e | Inr a \<Rightarrow> Inr (PyArr a)))"

definition shape_angles :: "pyval \<Rightarrow> pyval \<Rightarrow> fl list option \<Rightarrow> int \<Rightarrow> int \<Rightarrow> exn + pyval \<times> pyval" where
  "shape_angles th ph fill nlines nrows =
     (case with_fill th fill of
        Inl e \<Rightarrow> Inl e
      | Inr th1 \<Rightarrow>
          (case with_fill ph fill of
             Inl e \<Rightarrow> Inl e
           | Inr ph1 \<Rightarrow>
               (case py_reshape th1 nlines nrows of
                  Inl e \<Rightarrow> Inl e
                | Inr th2 \<Rightarrow>
                    (case py_reshape ph1 nlines nrows of
                       Inl e \<Rightarrow> Inl e
                     | Inr ph2 \<Rightarrow> Inr (th2, ph2)))))"

definition par_get :: "(string, pyval) dict \<Rightarrow> string \<Rightarrow> exn + pyval" where
  "par_get par k = (case dict_get par k of None \<Rightarrow> Inl (KeyError k) | Some v \<Rightarrow> Inr v)"

text \<open>\<open>par['corner_lat'] + par['post_lat'] * nrows\<close>\<close>

definition lower_left_lat :: "(string, pyval) dict \<Rightarrow> int \<Rightarrow> exn + pyval" where
  "lower_left_lat par nrows =
     (case par_get par ''corner_lat'' of
        Inl e \<Rightarrow> Inl e
      | Inr corner \<Rightarrow>
          (case par_get par ''post_lat'' of
             Inl e \<Rightarrow> Inl e
           | Inr post \<Rightarrow>
               (case py_mul_int post nrows of
                  Inl e \<Rightarrow> Inl e
                | Inr ext \<Rightarrow> py_add corner ext)))"

text \<open>The assignments to the container, in the order of the source.\<close>

definition store_angles :: "pyval \<Rightarrow> pyval \<Rightarrow> world \<Rightarrow> (exn + container) \<times> world" where
  "store_angles th ph w = return_container (set_phi ph (set_theta th w))"

definition store_dLat :: "(string, pyval) dict \<Rightarrow> pyval \<Rightarrow> pyval \<Rightarrow> world \<Rightarrow> (exn + container) \<times> world" where
  "store_dLat par th ph w =
     (case par_get par ''post_lat'' of
        Inl e \<Rightarrow> (Inl e, w)
      | Inr v \<Rightarrow> store_angles th ph (set_dLat v w))"

definition store_dLon :: "(string, pyval) dict \<Rightarrow> pyval \<Rightarrow> pyval \<Rightarrow> world \<Rightarrow> (exn + container) \<times> world" where
  "store_dLon par th ph w =
     (case par_get par ''post_lon'' of
        Inl e \<Rightarrow> (Inl e, w)
      | Inr v \<Rightarrow> store_dLat par th ph (set_dLon v w))"

definition store_llLon :: "(string, pyval) dict \<Rightarrow> pyval \<Rightarrow> pyval \<Rightarrow> world \<Rightarrow> (exn + container) \<times> world" where
  "store_llLon par th ph w =
     (case par_get par ''corner_lon'' of
        Inl e \<Rightarrow> (Inl e, w)
      | Inr v \<Rightarrow> store_dLon par th ph (set_llLon v w))"

definition store_llLat :: "(string, pyval) dict \<Rightarrow> int \<Rightarrow> pyval \<Rightarrow> pyval \<Rightarrow> world \<Rightarrow> (exn + container) \<times> world" where
  "store_llLat par nrows th ph w =
     (case lower_left_lat par nrows of
        Inl e \<Rightarrow> (Inl e, w)
      | Inr v \<Rightarrow> store_llLon par th ph (set_llLat v w))"

definition Gamma_store :: "(string, pyval) dict \<Rightarrow> int \<Rightarrow> ndarray \<Rightarrow> pyval \<Rightarrow> pyval \<Rightarrow> world \<Rightarrow> (exn + container) \<times> world" where
  "Gamma_store par nrows displ th ph w =
     store_llLat par nrows th ph (set_displacement (PyArr (arr_mul displ fl_1em2)) w)"

text \<open>
  From the reshaped grid on: \<open>phi\<close> and \<open>theta\<close> are looked up (each logs), the cosine
  of \<open>theta\<close> is taken, both are shaped, and the container is filled.
\<close>

definition read_shaped :: "(dtype \<Rightarrow> fl \<Rightarrow> fl) \<Rightarrow> (string, pyval) dict \<Rightarrow> int \<Rightarrow> int \<Rightarrow> ndarray \<Rightarrow> fl list option \<Rightarrow> pyval \<Rightarrow> pyval \<Rightarrow> world \<Rightarrow> (exn + container) \<times> world" where
  "read_shaped cosf par nrows nlines displ fill ph th w =
     (case np_cos cosf th of
        Inl e \<Rightarrow> (Inl e, w)
      | Inr th1 \<Rightarrow>
          (case shape_angles th1 ph fill nlines nrows of
             Inl e \<Rightarrow> (Inl e, w)
           | Inr (th2, ph2) \<Rightarrow> Gamma_store par nrows displ th2 ph2 w))"

definition read_theta :: "(dtype \<Rightarrow> fl \<Rightarrow> fl) \<Rightarrow> string \<Rightarrow> (string, pyval) dict \<Rightarrow> int \<Rightarrow> int \<Rightarrow> ndarray \<Rightarrow> fl list option \<Rightarrow> pyval \<Rightarrow> world \<Rightarrow> (exn + container) \<times> world" where
  "read_theta cosf filename par nrows nlines displ fill ph w =
     (case Gamma_getAngle filename ''*theta*'' w of
        (Inl e, w1) \<Rightarrow> (Inl e, w1)
      | (Inr th, w1) \<Rightarrow> read_shaped cosf par nrows nlines displ fill ph th w1)"

definition read_phi :: "(dtype \<Rightarrow> fl \<Rightarrow> fl) \<Rightarrow> string \<Rightarrow> (string, pyval) dict \<Rightarrow> int \<Rightarrow> int \<Rightarrow> ndarray \<Rightarrow> fl list option \<Rightarrow> world \<Rightarrow> (exn + container) \<times> world" where
  "read_phi cosf filename par nrows nlines displ fill w =
     (case Gamma_getAngle filename ''*phi*'' w of
        (Inl e, w1) \<Rightarrow> (Inl e, w1)
      | (Inr ph, w1) \<Rightarrow> read_theta cosf filename par nrows nlines displ fill ph w1)"

definition read_filled :: "(dtype \<Rightarrow> fl \<Rightarrow> fl) \<Rightarrow> string \<Rightarrow> (string, pyval) dict \<Rightarrow> int \<Rightarrow> int \<Rightarrow> ndarray \<Rightarrow> fl list option \<Rightarrow> world \<Rightarrow> (exn + container) \<times> world" where
  "read_filled cosf filename par nrows nlines raw fill w =
     (case shape_displ raw fill nlines nrows of
        Inl e \<Rightarrow> (Inl e, w)
      | Inr displ \<Rightarrow> read_phi cosf filename par nrows nlines displ fill w)"

definition read_grid :: "(dtype \<Rightarrow> fl \<Rightarrow> fl) \<Rightarrow> string \<Rightarrow> (string, pyval) dict \<Rightarrow> int \<Rightarrow> int \<Rightarrow> ndarray \<Rightarrow> world \<Rightarrow> (exn + container) \<times> world" where
  "read_grid cosf filename par nrows nlines raw w =
     (case fill_for nrows (length (cells raw)) of
        Inl e \<Rightarrow> (Inl e, w)
      | Inr fill \<Rightarrow> read_filled cosf filename par nrows nlines raw fill w)"

definition read_file_grid :: "(dtype \<Rightarrow> fl \<Rightarrow> fl) \<Rightarrow> string \<Rightarrow> (string, pyval) dict \<Rightarrow> int \<Rightarrow> int \<Rightarrow> world \<Rightarrow> (exn + container) \<times> world" where
  "read_file_grid cosf filename par nrows nlines w =
     (case np_fromfile Big (disk w) filename of
        Inl e \<Rightarrow> (Inl e, w)
      | Inr raw \<Rightarrow> read_grid cosf filename par nrows nlines raw w)"

definition read_parsed :: "(dtype \<Rightarrow> fl \<Rightarrow> fl) \<Rightarrow> string \<Rightarrow> string \<Rightarrow> (string, pyval) dict \<Rightarrow> world \<Rightarrow> (exn + container) \<times> world" where
  "read_parsed cosf filename par_file par w =
     (case read_dims par par_file of
        Inl e \<Rightarrow> (Inl e, w)
      | Inr (nrows, nlines) \<Rightarrow> read_file_grid cosf filename par nrows nlines w)"

definition read_with_par :: "(dtype \<Rightarrow> fl \<Rightarrow> fl) \<Rightarrow> string \<Rightarrow> string \<Rightarrow> world \<Rightarrow> (exn + container) \<times> world" where
  "read_with_par cosf filename par_file w =
     (case Gamma_parseParameterFile (disk w) par_file of
        Inl e \<Rightarrow> (Inl e, w)
      | Inr par \<Rightarrow> read_parsed cosf filename par_file par w)"

definition Gamma_read :: "(dtype \<Rightarrow> fl \<Rightarrow> fl) \<Rightarrow> string \<Rightarrow> string option \<Rightarrow> world \<Rightarrow> (exn + container) \<times> world" where
  "Gamma_read cosf filename kw w =
     (case Gamma_getParameterFile filename w of
        (Inl e, w1) \<Rightarrow> (Inl e, w1)
      | (Inr dflt, w1) \<Rightarrow> read_with_par cosf filename (pop_par_file kw dflt) w1)"

text \<open>
  What \<open>read\<close> makes of one item \<open>x\<close> of the displacement file, in an array of element
  type \<open>dt\<close>: the recoding of zeros, then the scaling \<open>displ*1e-2\<close>.
\<close>

definition Gamma_cell :: "dtype \<Rightarrow> fl \<Rightarrow> fl" where
  "Gamma_cell dt x = fl_mul dt (recode fl_neg_zero x) (fl_cast dt fl_1em2)"

section \<open>The ISCE reader\<close>

subsection \<open>\<open>ISCEXMLParser\<close>\<close>

text \<open>
  An element of the parsed metadata: its tag, its attributes, its text and its
  children. \<open>xml.etree.ElementTree.parse\<close> is outside the repository; the function
  from the bytes of a file to its root element (\<open>None\<close> when the file is not
  well-formed) is the parameter \<open>et_parse\<close> of the reader.
\<close>

datatype xml = Elem (xtag: string) (xattrs: "(string, string) dict") (xtext: "string option")
  (xkids: "xml list")

text \<open>\<open>element.iter()\<close>: the element and all its descendants, in document order.\<close>

fun xml_iter :: "xml \<Rightarrow> xml list" where
  "xml_iter (Elem t a x ks) = Elem t a x ks # concat (map xml_iter ks)"

definition ISCEXMLParser :: "(string \<Rightarrow> xml option) \<Rightarrow> filesystem \<Rightarrow> string \<Rightarrow> exn + xml" where
  "ISCEXMLParser et_parse fs filename =
     (case read_file fs filename of
        Inl e \<Rightarrow> Inl e
      | Inr b \<Rightarrow> (case et_parse b of None \<Rightarrow> Inl ParseError | Some root \<Rightarrow> Inr root))"

text \<open>
  \<open>type_convert\<close> tries \<open>float\<close>, \<open>int\<close> and \<open>str\<close> in turn, moving on at a
  \<open>ValueError\<close>. The text of an empty element is \<open>None\<close>, and \<open>float(None)\<close> is a
  \<open>TypeError\<close>, which is not caught.
\<close>

definition type_convert :: "string option \<Rightarrow> exn + pyval" where
  "type_convert t =
     (case t of
        None \<Rightarrow> Inl TypeError
      | Some s \<Rightarrow>
          (case py_float s of
             Some x \<Rightarrow> Inr (PyFloat x)
           | None \<Rightarrow>
               (case py_int_str s of
                  Some i \<Rightarrow> Inr (PyInt i)
                | None \<Rightarrow> Inr (PyStr s))))"

text \<open>
  \<open>self.type_convert(child.find('value').text)\<close>: \<open>find\<close> gives the first child with
  the tag \<open>value\<close>, or \<open>None\<close>, which has no \<open>text\<close>.
\<close>

definition convert_value :: "xml \<Rightarrow> exn + pyval" where
  "convert_value e =
     (case find (\<lambda>k. xtag k = ''value'') (xkids e) of
        None \<Rightarrow> Inl AttributeError
      | Some v \<Rightarrow> type_convert (xtext v))"

text \<open>
  The dictionary of a component: every \<open>property\<close> below it, stored under its \<open>name\<close>
  attribute (\<open>None\<close> when it has none).
\<close>

fun component_values :: "xml list \<Rightarrow> (string option, pyval) dict \<Rightarrow> exn + (string option, pyval) dict" where
  "component_values [] vs = Inr vs"
| "component_values (p # ps) vs =
     (case convert_value p of
        Inl e \<Rightarrow> Inl e
      | Inr v \<Rightarrow> component_values ps (dict_set (dict_get (xattrs p) ''name'') v vs))"

datatype propval = PropNone | PropVal pyval | PropDict "(string option, pyval) dict"

fun find_property :: "xml list \<Rightarrow> string \<Rightarrow> exn + propval" where
  "find_property [] name = Inr PropNone"
| "find_property (child # rest) name =
     (if dict_get (xattrs child) ''name'' = Some name then
        (if xtag child = ''property'' then
           (case convert_value child of Inl e \<Rightarrow> Inl e | Inr v \<Rightarrow> Inr (PropVal v))
         else if xtag child = ''component'' then
           (case component_values (filter (\<lambda>p. xtag p = ''property'') (xml_iter child)) [] of
              Inl e \<Rightarrow> Inl e
            | Inr vs \<Rightarrow> Inr (PropDict vs))
         else find_property rest name)
      else find_property rest name)"

definition getProperty :: "xml \<Rightarrow> string \<Rightarrow> exn + propval" where
  "getProperty root name = find_property (xml_iter root) name"

text \<open>
  \<open>coord['delta']\<close>: only a dictionary can be indexed by a string; \<open>None\<close>, a number or
  a string raises \<open>TypeError\<close>, and a missing key \<open>KeyError\<close>.
\<close>

fun prop_item :: "propval \<Rightarrow> string \<Rightarrow> exn + pyval" where
  "prop_item (PropDict vs) k =
     (case dict_get vs (Some k) of None \<Rightarrow> Inl (KeyError k) | Some v \<Rightarrow> Inr v)"
| "prop_item p k = Inl TypeError"

text \<open>\<open>numpy.abs\<close> of a value: the result of a float is a numpy scalar.\<close>

fun np_abs :: "pyval \<Rightarrow> exn + pyval" where
  "np_abs (PyFloat x) = Inr (NpFloat (fl_abs x))"
| "np_abs (NpFloat x) = Inr (NpFloat (fl_abs x))"
| "np_abs (PyInt i) = Inr (PyInt \<bar>i\<bar>)"
| "np_abs (PyArr a) = Inr (PyArr (a\<lparr>cells := map fl_abs (cells a)\<rparr>))"
| "np_abs v = Inl TypeError"

subsection \<open>File discovery\<close>

definition ISCE_getLOSFile :: "filesystem \<Rightarrow> string \<Rightarrow> exn + string" where
  "ISCE_getLOSFile fs path =
     (case glob fs (path_join (if \<not> is_dir fs path then dirname path else path) ''*.rdr.geo'') of
        [] \<Rightarrow> Inl (ImportError [''Could not find LOS file (.rdr.geo)''])
      | f # rest \<Rightarrow> Inr f)"

text \<open>The error of \<open>_getLOSFile\<close>, for reference in what follows.\<close>

definition los_error :: exn where
  "los_error = ImportError [''Could not find LOS file (.rdr.geo)'']"

definition with_xml :: "filesystem \<Rightarrow> string \<Rightarrow> exn + string" where
  "with_xml fs disp_file =
     (if \<not> is_file fs (disp_file @ ''.xml'')
      then Inl (ImportError [''Could not find displacement XML file ('' @ basename disp_file
                              @ ''.unw.geo.xml)''])
      else Inr disp_file)"

definition ISCE_getDisplacementFile :: "filesystem \<Rightarrow> string \<Rightarrow> exn + string" where
  "ISCE_getDisplacementFile fs path =
     (if is_file fs path then with_xml fs path
      else (case glob fs (path_join path ''*.unw.geo'') of
              [] \<Rightarrow> Inl (ImportError [''Could not find displacement file (.unw.geo) at %s'', path])
            | f # rest \<Rightarrow> with_xml fs f))"

subsection \<open>\<open>ISCE.validate\<close>\<close>

definition ISCE_validate :: "string \<Rightarrow> world \<Rightarrow> (exn + bool) \<times> world" where
  "ISCE_validate filename w =
     (case ISCE_getDisplacementFile (disk w) filename of
        Inl (ImportError m) \<Rightarrow> (Inr False, w)
      | Inl e \<Rightarrow> (Inl e, w)
      | Inr d \<Rightarrow>
          (case ISCE_getLOSFile (disk w) filename of
             Inl (ImportError m) \<Rightarrow> (Inr False, w)
           | Inl e \<Rightarrow> (Inl e, w)
           | Inr l \<Rightarrow> (Inr True, w)))"

subsection \<open>Slices of a grid\<close>

text \<open>The rows of a grid of \<open>r\<close> rows and \<open>c\<close> columns, from its cells.\<close>

fun rows :: "nat \<Rightarrow> nat \<Rightarrow> 'a list \<Rightarrow> 'a list list" where
  "rows r c xs = (if r = 0 then [] else take c xs # rows (r - 1) c (drop c xs))"

declare rows.simps [simp del]

text \<open>A slice bound \<open>k\<close> on an axis of length \<open>c\<close>: negative bounds count from the end.\<close>

definition slice_bound :: "int \<Rightarrow> nat \<Rightarrow> nat" where
  "slice_bound k c = (if k < 0 then nat (max (int c + k) 0) else min (nat k) c)"

text \<open>\<open>a[:, k:]\<close> and \<open>a[:, :k]\<close> for a grid \<open>a\<close>.\<close>

definition cols_of :: "(nat \<Rightarrow> fl list \<Rightarrow> fl list) \<Rightarrow> nat \<Rightarrow> nat \<Rightarrow> nat \<Rightarrow> nat \<Rightarrow> ndarray \<Rightarrow> ndarray" where
  "cols_of part width r c s a =
     a\<lparr>shape := [r, width], cells := concat (map (part s) (rows r c (cells a)))\<rparr>"

definition cols_from :: "int \<Rightarrow> ndarray \<Rightarrow> ndarray" where
  "cols_from k a =
     (case shape a of
        [r, c] \<Rightarrow> cols_of drop (c - slice_bound k c) r c (slice_bound k c) a
      | _ \<Rightarrow> a)"

definition cols_upto :: "int \<Rightarrow> ndarray \<Rightarrow> ndarray" where
  "cols_upto k a =
     (case shape a of
        [r, c] \<Rightarrow> cols_of take (slice_bound k c) r c (slice_bound k c) a
      | _ \<Rightarrow> a)"

subsection \<open>The displacement file is mapped for writing\<close>

text \<open>
  \<open>num.memmap(path, dtype='<f4')\<close> opens the file in the default mode \<open>r+\<close>, and
  \<open>displacement\<close> is a view of the map, so \<open>displacement[displacement == 0.] = num.nan\<close>
  writes to the file: in every row of \<open>width\<close> items, each item from column \<open>k\<close> on
  that is zero is overwritten with the bytes of a little-endian NaN.
  \<open>write_nan width k i b\<close> does this for the bytes \<open>b\<close> that start at item \<open>i\<close>.
\<close>

definition nan_le :: string where
  "nan_le = map char_of [0, 0, 192, 127 :: nat]"

fun write_nan :: "nat \<Rightarrow> nat \<Rightarrow> nat \<Rightarrow> string \<Rightarrow> string" where
  "write_nan width k i (a # b # c # d # r) =
     (if k \<le> i mod width \<and> is_zero (f32_of_bits (be32 d c b a))
      then nan_le @ write_nan width k (i + 1) r
      else a # b # c # d # write_nan width k (i + 1) r)"
| "write_nan width k i r = r"

definition write_back :: "string \<Rightarrow> ndarray \<Rightarrow> int \<Rightarrow> world \<Rightarrow> world" where
  "write_back path shaped nlon w =
     (case (shape shaped, dict_get (disk w) path) of
        ([r, c], Some (File b)) \<Rightarrow>
          w\<lparr>disk := dict_set path (File (write_nan c (slice_bound nlon c) 0 b)) (disk w)\<rparr>
      | _ \<Rightarrow> w)"

subsection \<open>\<open>ISCE.read\<close>\<close>

text \<open>
  The look-vector file, the last thing \<open>read\<close> touches: \<open>phi\<close> is the left half of
  its rows, \<open>theta\<close> the right half plus \<open>90.\<close>
\<close>

definition ISCE_los :: "string \<Rightarrow> int \<Rightarrow> int \<Rightarrow> world \<Rightarrow> (exn + container) \<times> world" where
  "ISCE_los path nlat nlon w =
     (case ISCE_getLOSFile (disk w) path of
        Inl e \<Rightarrow> (Inl e, w)
      | Inr f \<Rightarrow>
          (case np_fromfile Little (disk w) f of
             Inl e \<Rightarrow> (Inl e, w)
           | Inr raw \<Rightarrow>
               (case np_reshape raw nlat (nlon * 2) of
                  Inl e \<Rightarrow> (Inl e, w)
                | Inr los_data \<Rightarrow>
                    return_container
                      (set_theta (PyArr (arr_add (cols_from nlon los_data) fl_90))
                        (set_phi (PyArr (cols_upto nlon los_data)) w)))))"

text \<open>
  The displacement: the file is looked up again and mapped, reshaped to
  \<open>(nlat, nlon*2)\<close>; the right half of the rows is kept, its zeros are set to NaN (in
  the file too), and the container gets the grid times \<open>1e-2\<close>.
\<close>

definition ISCE_displacement :: "string \<Rightarrow> int \<Rightarrow> int \<Rightarrow> world \<Rightarrow> (exn + container) \<times> world" where
  "ISCE_displacement path nlat nlon w =
     (case ISCE_getDisplacementFile (disk w) path of
        Inl e \<Rightarrow> (Inl e, w)
      | Inr disp \<Rightarrow>
          (case np_memmap Little (disk w) disp of
             Inl e \<Rightarrow> (Inl e, w)
           | Inr raw \<Rightarrow>
               (case np_reshape raw nlat (nlon * 2) of
                  Inl e \<Rightarrow> (Inl e, w)
                | Inr shaped \<Rightarrow>
                    ISCE_los path nlat nlon
                      (set_displacement
                         (PyArr (arr_mul (set_nan_where_eq fl_zero (cols_from nlon shaped)) fl_1em2))
                         (write_back disp shaped nlon w)))))"

text \<open>
  The geographic reference, before the displacement is touched: the absolute deltas,
  the sizes, \<open>llLat\<close> as \<open>startingvalue + nlat * delta\<close> of the second coordinate and
  \<open>llLon\<close> as the \<open>startingvalue\<close> of the first.
\<close>

definition ISCE_llLon :: "string \<Rightarrow> int \<Rightarrow> int \<Rightarrow> propval \<Rightarrow> world \<Rightarrow> (exn + container) \<times> world" where
  "ISCE_llLon path nlat nlon coord_lon w =
     (case prop_item coord_lon ''startingvalue'' of
        Inl e \<Rightarrow> (Inl e, w)
      | Inr v \<Rightarrow> ISCE_displacement path nlat nlon (set_llLon v w))"

definition lat_origin :: "propval \<Rightarrow> int \<Rightarrow> exn + pyval" where
  "lat_origin coord_lat nlat =
     (case prop_item coord_lat ''startingvalue'' of
        Inl e \<Rightarrow> Inl e
      | Inr sv \<Rightarrow>
          (case prop_item coord_lat ''delta'' of
             Inl e \<Rightarrow> Inl e
           | Inr d \<Rightarrow>
               (case py_mul_int d nlat of
                  Inl e \<Rightarrow> Inl e
                | Inr ext \<Rightarrow> py_add sv ext)))"

definition ISCE_llLat :: "string \<Rightarrow> int \<Rightarrow> int \<Rightarrow> propval \<Rightarrow> propval \<Rightarrow> world \<Rightarrow> (exn + container) \<times> world" where
  "ISCE_llLat path nlat nlon coord_lon coord_lat w =
     (case lat_origin coord_lat nlat of
        Inl e \<Rightarrow> (Inl e, w)
      | Inr v \<Rightarrow> ISCE_llLon path nlat nlon coord_lon (set_llLat v w))"

definition prop_int :: "propval \<Rightarrow> string \<Rightarrow> exn + int" where
  "prop_int p k = (case prop_item p k of Inl e \<Rightarrow> Inl e | Inr v \<Rightarrow> py_int v)"

definition ISCE_sizes :: "string \<Rightarrow> propval \<Rightarrow> propval \<Rightarrow> world \<Rightarrow> (exn + container) \<times> world" where
  "ISCE_sizes path coord_lon coord_lat w =
     (case prop_int coord_lon ''size'' of
        Inl e \<Rightarrow> (Inl e, w)
      | Inr nlon \<Rightarrow>
          (case prop_int coord_lat ''size'' of
             Inl e \<Rightarrow> (Inl e, w)
           | Inr nlat \<Rightarrow> ISCE_llLat path nlat nlon coord_lon coord_lat w))"

definition abs_delta :: "propval \<Rightarrow> exn + pyval" where
  "abs_delta p = (case prop_item p ''delta'' of Inl e \<Rightarrow> Inl e | Inr v \<Rightarrow> np_abs v)"

definition ISCE_dLon :: "string \<Rightarrow> propval \<Rightarrow> propval \<Rightarrow> world \<Rightarrow> (exn + container) \<times> world" where
  "ISCE_dLon path coord_lon coord_lat w =
     (case abs_delta coord_lon of
        Inl e \<Rightarrow> (Inl e, w)
      | Inr v \<Rightarrow> ISCE_sizes path coord_lon coord_lat (set_dLon v w))"

definition ISCE_dLat :: "string \<Rightarrow> propval \<Rightarrow> propval \<Rightarrow> world \<Rightarrow> (exn + container) \<times> world" where
  "ISCE_dLat path coord_lon coord_lat w =
     (case abs_delta coord_lat of
        Inl e \<Rightarrow> (Inl e, w)
      | Inr v \<Rightarrow> ISCE_dLon path coord_lon coord_lat (set_dLat v w))"

definition ISCE_coords :: "string \<Rightarrow> xml \<Rightarrow> world \<Rightarrow> (exn + container) \<times> world" where
  "ISCE_coords path root w =
     (case getProperty root ''coordinate1'' of
        Inl e \<Rightarrow> (Inl e, w)
      | Inr coord_lon \<Rightarrow>
          (case getProperty root ''coordinate2'' of
             Inl e \<Rightarrow> (Inl e, w)
           | Inr coord_lat \<Rightarrow> ISCE_dLat path coord_lon coord_lat w))"

definition ISCE_read :: "(string \<Rightarrow> xml option) \<Rightarrow> string \<Rightarrow> world \<Rightarrow> (exn + container) \<times> world" where
  "ISCE_read et_parse path w =
     (case ISCE_getDisplacementFile (disk w) (abspath path) of
        Inl e \<Rightarrow> (Inl e, w)
      | Inr disp \<Rightarrow>
          (case ISCEXMLParser et_parse (disk w) (disp @ ''.xml'') of
             Inl e \<Rightarrow> (Inl e, w)
           | Inr root \<Rightarrow> ISCE_coords (abspath path) root w))"

text \<open>
  What \<open>read\<close> makes of one kept item \<open>x\<close> of the displacement file: the recoding of
  zeros, then the scaling \<open>displacement*1e-2\<close> in binary32.
\<close>

definition ISCE_cell :: "fl \<Rightarrow> fl" where
  "ISCE_cell x = fl_mul F32 (recode fl_zero x) (fl_cast F32 fl_1em2)"

section \<open>The GMTSAR reader: \<open>validate\<close>\<close>

definition GMTSAR_getDisplacementFile :: "filesystem \<Rightarrow> string \<Rightarrow> exn + string" where
  "GMTSAR_getDisplacementFile fs path =
     (if is_file fs path then Inr path
      else (case glob fs (path_join path ''*.grd'') of
              [] \<Rightarrow> Inl (ImportError [''Could not find displacement file (*.grd) at %s'', path])
            | f # rest \<Rightarrow> Inr f))"

definition GMTSAR_validate :: "string \<Rightarrow> world \<Rightarrow> (exn + bool) \<times> world" where
  "GMTSAR_validate filename w =
     (case GMTSAR_getDisplacementFile (disk w) filename of
        Inl (ImportError m) \<Rightarrow> (Inr False, w)
      | Inl e \<Rightarrow> (Inl e, w)
      | Inr f \<Rightarrow> (if last4 f = ''.grd'' then (Inr True, w) else (Inr False, w)))"

section \<open>The Matlab reader\<close>

text \<open>
  \<open>Matlab.validate\<close> returns at its first statement; the lines after it are never
  reached.
\<close>

definition Matlab_validate :: "string \<Rightarrow> world \<Rightarrow> (exn + bool) \<times> world" where
  "Matlab_validate filename w = (if last4 filename = ''.mat'' then (Inr True, w) else (Inr False, w))"

subsection \<open>\<open>Matlab.read\<close>: the variables of the file\<close>

text \<open>
  \<open>scipy.io.loadmat\<close> and \<open>utm.to_latlon\<close> are outside the repository and are
  parameters of the reader: \<open>loadmat\<close> gives the variables of a file as the items of
  a dictionary, in the order the loop meets them; \<open>to_latlon\<close> gives latitude and
  longitude as the values the library returns, Python floats or numpy scalars, or
  \<open>None\<close> for its \<open>OutOfRangeError\<close>.

  The keys of the container are listed in the order of the dictionary display in
  \<open>SceneIO.__init__\<close>. Python 2 leaves the order in which \<open>iterkeys\<close> yields them
  unspecified; one pass over all keys stores the same value in every slot it touches,
  so without an exception its outcome is the same in every order.
\<close>

definition container_keys :: "string list" where
  "container_keys = [''phi'', ''theta'', ''displacement'', ''llLon'', ''llLat'', ''dLat'', ''dLon'']"

definition store_key :: "string \<Rightarrow> pyval \<Rightarrow> world \<Rightarrow> world" where
  "store_key k v w =
     (if k = ''phi'' then set_phi v w
      else if k = ''theta'' then set_theta v w
      else if k = ''displacement'' then set_displacement v w
      else if k = ''llLon'' then set_llLon v w
      else if k = ''llLat'' then set_llLat v w
      else if k = ''dLat'' then set_dLat v w
      else if k = ''dLon'' then set_dLon v w
      else w)"

text \<open>\<open>v.flatten()\<close>: only an array has the method.\<close>

fun flatten :: "pyval \<Rightarrow> exn + ndarray" where
  "flatten (PyArr a) = Inr (a\<lparr>shape := [length (cells a)]\<rparr>)"
| "flatten v = Inl AttributeError"

text \<open>
  The state of the loop is the reader's state and the local variables \<open>utm_e\<close> and
  \<open>utm_n\<close>, \<open>None\<close> while unbound. One pass of the inner loop, for the variable
  \<open>mat_k\<close> with value \<open>v\<close> and the container key \<open>io_k\<close>:
\<close>

type_synonym scan = "world \<times> ndarray option \<times> ndarray option"

definition assign :: "string \<Rightarrow> pyval \<Rightarrow> scan \<Rightarrow> string \<Rightarrow> (exn \<times> world) + scan" where
  "assign mat_k v st io_k =
     (case st of
        (w, e, n) \<Rightarrow>
          if py_in io_k mat_k then Inr (store_key io_k v w, e, n)
          else if py_in ''ig_'' mat_k then Inr (set_displacement v w, e, n)
          else if py_in ''xx'' mat_k then
            (case flatten v of Inl x \<Rightarrow> Inl (x, w) | Inr a \<Rightarrow> Inr (w, Some a, n))
          else if py_in ''yy'' mat_k then
            (case flatten v of Inl x \<Rightarrow> Inl (x, w) | Inr a \<Rightarrow> Inr (w, e, Some a))
          else Inr st)"

fun each_key :: "string \<Rightarrow> pyval \<Rightarrow> string list \<Rightarrow> scan \<Rightarrow> (exn \<times> world) + scan" where
  "each_key mat_k v [] st = Inr st"
| "each_key mat_k v (io_k # ks) st =
     (case assign mat_k v st io_k of
        Inl x \<Rightarrow> Inl x
      | Inr st1 \<Rightarrow> each_key mat_k v ks st1)"

fun each_item :: "(string, pyval) dict \<Rightarrow> scan \<Rightarrow> (exn \<times> world) + scan" where
  "each_item [] st = Inr st"
| "each_item ((mat_k, v) # items) st =
     (case each_key mat_k v container_keys st of
        Inl x \<Rightarrow> Inl x
      | Inr st1 \<Rightarrow> each_item items st1)"

subsection \<open>\<open>Matlab.read\<close>: the coordinate vectors\<close>

text \<open>
  \<open>a.min()\<close> and \<open>a.max()\<close>: an empty array has none, and a NaN among the cells is the
  result.
\<close>

fun fold_min :: "fl \<Rightarrow> fl list \<Rightarrow> fl" where
  "fold_min m [] = m"
| "fold_min m (x # xs) = fold_min (if fl_lt x m then x else m) xs"

fun fold_max :: "fl \<Rightarrow> fl list \<Rightarrow> fl" where
  "fold_max m [] = m"
| "fold_max m (x # xs) = fold_max (if fl_lt m x then x else m) xs"

definition np_min :: "ndarray \<Rightarrow> exn + fl" where
  "np_min a =
     (case cells a of
        [] \<Rightarrow> Inl ValueError
      | x # xs \<Rightarrow> Inr (if list_ex is_nan (x # xs) then NaN else fold_min x xs))"

definition np_max :: "ndarray \<Rightarrow> exn + fl" where
  "np_max a =
     (case cells a of
        [] \<Rightarrow> Inl ValueError
      | x # xs \<Rightarrow> Inr (if list_ex is_nan (x # xs) then NaN else fold_max x xs))"

text \<open>
  \<open>utm_e.min() < 1e4 or utm_n.min() < 1e4\<close>: \<open>utm_n\<close> is looked at only when the
  first comparison is false.
\<close>

definition small_n :: "ndarray option \<Rightarrow> exn + bool" where
  "small_n n =
     (case n of
        None \<Rightarrow> Inl UnboundLocalError
      | Some a \<Rightarrow> (case np_min a of Inl x \<Rightarrow> Inl x | Inr m \<Rightarrow> Inr (fl_lt m fl_1e4)))"

definition small :: "ndarray \<Rightarrow> ndarray option \<Rightarrow> exn + bool" where
  "small e n =
     (case np_min e of
        Inl x \<Rightarrow> Inl x
      | Inr m \<Rightarrow> if fl_lt m fl_1e4 then Inr True else small_n n)"

text \<open>\<open>utm_e *= 1e3; utm_n *= 1e3\<close> when the coordinates are small.\<close>

definition times_1e3 :: "ndarray \<Rightarrow> ndarray option \<Rightarrow> exn + ndarray \<times> ndarray" where
  "times_1e3 e n =
     (case n of
        None \<Rightarrow> Inl UnboundLocalError
      | Some a \<Rightarrow> Inr (arr_mul e fl_1e3, arr_mul a fl_1e3))"

definition rescale :: "ndarray \<Rightarrow> ndarray option \<Rightarrow> exn + ndarray \<times> ndarray" where
  "rescale e n =
     (case small e n of
        Inl x \<Rightarrow> Inl x
      | Inr True \<Rightarrow> times_1e3 e n
      | Inr False \<Rightarrow> (case n of None \<Rightarrow> Inl UnboundLocalError | Some a \<Rightarrow> Inr (e, a)))"

subsection \<open>\<open>Matlab.read\<close>: the \<open>except\<close> branch\<close>

text \<open>
  \<open>(a[1] - a[0]) / 110e3\<close>: the difference of two cells in the element type of the
  array, divided in binary64; an array of fewer than two cells has no \<open>a[1]\<close>.
\<close>

definition spacing :: "ndarray \<Rightarrow> exn + fl" where
  "spacing a =
     (case cells a of
        x0 # x1 # r \<Rightarrow> Inr (fl_div F64 (fl_sub (dtype a) x1 x0) fl_110e3)
      | _ \<Rightarrow> Inl IndexError)"

definition degraded_warning :: string where
  "degraded_warning = ''Could not interpret spatial vectors, referencing to 0, 0 (lat, lon)''"

definition fallback_dLon :: "ndarray \<Rightarrow> world \<Rightarrow> (exn + container) \<times> world" where
  "fallback_dLon n w =
     (case spacing n of
        Inl x \<Rightarrow> (Inl x, w)
      | Inr d \<Rightarrow> return_container (log_msg Warning degraded_warning (set_dLon (NpFloat d) w)))"

definition fallback_dLat :: "ndarray \<Rightarrow> ndarray \<Rightarrow> world \<Rightarrow> (exn + container) \<times> world" where
  "fallback_dLat e n w =
     (case spacing e of
        Inl x \<Rightarrow> (Inl x, w)
      | Inr d \<Rightarrow> fallback_dLon n (set_dLat (NpFloat d) w))"

definition fallback :: "ndarray \<Rightarrow> ndarray \<Rightarrow> world \<Rightarrow> (exn + container) \<times> world" where
  "fallback e n w =
     fallback_dLat e n (set_llLon (PyFloat fl_zero) (set_llLat (PyFloat fl_zero) w))"

subsection \<open>\<open>Matlab.read\<close>: the \<open>try\<close> block\<close>

text \<open>
  \<open>self.container['displacement'].shape[i]\<close>: \<open>None\<close> and numbers have no \<open>shape\<close>, and
  a shape can be too short.
\<close>

fun shape_at :: "pyval \<Rightarrow> nat \<Rightarrow> exn + nat" where
  "shape_at (PyArr a) i = (if i < length (shape a) then Inr (shape a ! i) else Inl IndexError)"
| "shape_at v i = Inl AttributeError"

text \<open>
  \<open>a - b\<close> for two floats, and \<open>d / k\<close> for a float and an integer \<open>k\<close>: between
  Python floats a zero divisor raises, with a numpy scalar the result is a numpy
  scalar and a zero divisor gives an infinity or NaN.
\<close>

fun py_sub :: "pyval \<Rightarrow> pyval \<Rightarrow> exn + pyval" where
  "py_sub (PyFloat x) (PyFloat y) = Inr (PyFloat (fl_sub F64 x y))"
| "py_sub (PyFloat x) (NpFloat y) = Inr (NpFloat (fl_sub F64 x y))"
| "py_sub (NpFloat x) (PyFloat y) = Inr (NpFloat (fl_sub F64 x y))"
| "py_sub (NpFloat x) (NpFloat y) = Inr (NpFloat (fl_sub F64 x y))"
| "py_sub a b = Inl TypeError"

fun py_div_nat :: "pyval \<Rightarrow> nat \<Rightarrow> exn + pyval" where
  "py_div_nat (PyFloat x) k =
     (if k = 0 then Inl ZeroDivisionError
      else Inr (PyFloat (fl_div F64 x (fl_of_int (int k)))))"
| "py_div_nat (NpFloat x) k = Inr (NpFloat (fl_div F64 x (fl_of_int (int k))))"
| "py_div_nat v k = Inl TypeError"

text \<open>
  \<open>(ur - ll) / self.container['displacement'].shape[i]\<close>: the difference first, then
  the shape, then the division.
\<close>

definition delta_over :: "pyval \<Rightarrow> pyval \<Rightarrow> nat \<Rightarrow> world \<Rightarrow> exn + pyval" where
  "delta_over ur ll i w =
     (case py_sub ur ll of
        Inl x \<Rightarrow> Inl x
      | Inr d \<Rightarrow>
          (case shape_at (displacement (container w)) i of
             Inl x \<Rightarrow> Inl x
           | Inr k \<Rightarrow> py_div_nat d k))"

definition try_dLon :: "pyval \<Rightarrow> world \<Rightarrow> (exn + container) \<times> world" where
  "try_dLon urlon w =
     (case delta_over urlon (llLon (container w)) 1 w of
        Inl x \<Rightarrow> (Inl x, w)
      | Inr d \<Rightarrow> return_container (set_dLon d w))"

definition try_dLat :: "pyval \<Rightarrow> pyval \<Rightarrow> world \<Rightarrow> (exn + container) \<times> world" where
  "try_dLat urlat urlon w =
     (case delta_over urlat (llLat (container w)) 0 w of
        Inl x \<Rightarrow> (Inl x, w)
      | Inr d \<Rightarrow> try_dLon urlon (set_dLat d w))"

definition upper_right :: "(fl \<Rightarrow> fl \<Rightarrow> nat \<Rightarrow> string \<Rightarrow> (pyval \<times> pyval) option) \<Rightarrow> ndarray \<Rightarrow> ndarray \<Rightarrow> world \<Rightarrow> (exn + container) \<times> world" where
  "upper_right to_latlon e n w =
     (case np_max e of
        Inl x \<Rightarrow> (Inl x, w)
      | Inr emax \<Rightarrow>
          (case np_max n of
             Inl x \<Rightarrow> (Inl x, w)
           | Inr nmax \<Rightarrow>
               (case to_latlon emax nmax 32 ''N'' of
                  None \<Rightarrow> fallback e n w
                | Some (urlat, urlon) \<Rightarrow> try_dLat urlat urlon w)))"

definition locate :: "(fl \<Rightarrow> fl \<Rightarrow> nat \<Rightarrow> string \<Rightarrow> (pyval \<times> pyval) option) \<Rightarrow> ndarray \<Rightarrow> ndarray \<Rightarrow> world \<Rightarrow> (exn + container) \<times> world" where
  "locate to_latlon e n w =
     (case np_min e of
        Inl x \<Rightarrow> (Inl x, w)
      | Inr emin \<Rightarrow>
          (case np_min n of
             Inl x \<Rightarrow> (Inl x, w)
           | Inr nmin \<Rightarrow>
               (case to_latlon emin nmin 32 ''N'' of
                  None \<Rightarrow> fallback e n w
                | Some (lat, lon) \<Rightarrow>
                    upper_right to_latlon e n (set_llLon lon (set_llLat lat w)))))"

subsection \<open>\<open>Matlab.read\<close>\<close>

definition read_vectors :: "(fl \<Rightarrow> fl \<Rightarrow> nat \<Rightarrow> string \<Rightarrow> (pyval \<times> pyval) option) \<Rightarrow> ndarray option \<Rightarrow> ndarray option \<Rightarrow> world \<Rightarrow> (exn + container) \<times> world" where
  "read_vectors to_latlon utm_e utm_n w =
     (case utm_e of
        None \<Rightarrow> (Inl UnboundLocalError, w)
      | Some e \<Rightarrow>
          (case rescale e utm_n of
             Inl x \<Rightarrow> (Inl x, w)
           | Inr (e1, n1) \<Rightarrow> locate to_latlon e1 n1 w))"

definition read_items :: "(fl \<Rightarrow> fl \<Rightarrow> nat \<Rightarrow> string \<Rightarrow> (pyval \<times> pyval) option) \<Rightarrow> (string, pyval) dict \<Rightarrow> world \<Rightarrow> (exn + container) \<times> world" where
  "read_items to_latlon mat w =
     (case each_item mat (w, None, None) of
        Inl (x, w1) \<Rightarrow> (Inl x, w1)
      | Inr (w1, utm_e, utm_n) \<Rightarrow> read_vectors to_latlon utm_e utm_n w1)"

definition Matlab_read :: "(filesystem \<Rightarrow> string \<Rightarrow> exn + (string, pyval) dict) \<Rightarrow> (fl \<Rightarrow> fl \<Rightarrow> nat \<Rightarrow> string \<Rightarrow> (pyval \<times> pyval) option) \<Rightarrow> string \<Rightarrow> world \<Rightarrow> (exn + container) \<times> world" where
  "Matlab_read loadmat to_latlon filename w =
     (case loadmat (disk w) filename of
        Inl x \<Rightarrow> (Inl x, w)
      | Inr mat \<Rightarrow> read_items to_latlon mat w)"

section \<open>Example products\<close>

text \<open>
  A parameter file with the required keys \<open>nlines\<close> and \<open>post_lon\<close> missing, and the
  dictionary its lines parse to.
\<close>

definition short_par_text :: string where
  "short_par_text =
     ''corner_lat: 10.0 \<newline>corner_lon: 20.0 \<newline>width: 5\<newline>post_lat: -0.5 \<newline>''"

definition short_par :: "(string, pyval) dict" where
  "short_par =
     [(''corner_lat'', PyFloat (Fin False 5 1)), (''corner_lon'', PyFloat (Fin False 5 2)),
      (''width'', PyFloat (Fin False 5 0)), (''post_lat'', PyFloat (Fin True 1 (- 1)))]"

text \<open>
  A synthetic Gamma product in the directory \<open>/d\<close>: the parameter file (\<open>nlines\<close> 4,
  \<open>width\<close> 5), a displacement file, and \<open>phi\<close> and \<open>theta\<close> grids of zeros. The
  displacement file \<open>grid20\<close> holds 20 big-endian binary32 items, four times the row
  1.0, 2.0, -1.5, 150.0, 0.5; \<open>grid18\<close> is its first 18 items.
\<close>

definition bytes :: "nat list \<Rightarrow> string" where
  "bytes ns = map char_of ns"

definition scene_par_text :: string where
  "scene_par_text =
     ''title: demo scene\<newline>corner_lat:   10.0  decimal degrees\<newline>corner_lon:   20.0  decimal degrees\<newline>nlines:   4\<newline>width:   5\<newline>post_lat:   -0.5  decimal degrees\<newline>post_lon:   0.5  decimal degrees\<newline>''"

definition scene_par :: "(string, pyval) dict" where
  "scene_par =
     [(''title'', PyStr ''demo scene''), (''corner_lat'', PyFloat (Fin False 5 1)),
      (''corner_lon'', PyFloat (Fin False 5 2)), (''nlines'', PyFloat (Fin False 1 2)),
      (''width'', PyFloat (Fin False 5 0)), (''post_lat'', PyFloat (Fin True 1 (- 1))),
      (''post_lon'', PyFloat (Fin False 1 (- 1)))]"

definition grid18 :: string where
  "grid18 = bytes
      [63,128,0,0, 64,0,0,0, 191,192,0,0, 67,22,0,0, 63,0,0,0,
       63,128,0,0, 64,0,0,0, 191,192,0,0, 67,22,0,0, 63,0,0,0,
       63,128,0,0, 64,0,0,0, 191,192,0,0, 67,22,0,0, 63,0,0,0,
       63,128,0,0, 64,0,0,0, 191,192,0,0]"

definition grid20 :: string where
  "grid20 = grid18 @ bytes [67,22,0,0, 63,0,0,0]"

definition zeros18 :: string where
  "zeros18 = bytes
      [0,0,0,0, 0,0,0,0, 0,0,0,0, 0,0,0,0, 0,0,0,0,
       0,0,0,0, 0,0,0,0, 0,0,0,0, 0,0,0,0, 0,0,0,0,
       0,0,0,0, 0,0,0,0, 0,0,0,0, 0,0,0,0, 0,0,0,0,
       0,0,0,0, 0,0,0,0, 0,0,0,0]"

definition zeros20 :: string where
  "zeros20 = zeros18 @ bytes [0,0,0,0, 0,0,0,0]"

definition scene_fs :: filesystem where
  "scene_fs =
     [(''/d'', Dir), (''/d/scene.par'', File scene_par_text), (''/d/scene.unw'', File grid20),
      (''/d/scene.phi'', File zeros20), (''/d/scene.theta'', File zeros20)]"

text \<open>The same product with the displacement and angle files cut to 18 items.\<close>

definition cut_fs :: filesystem where
  "cut_fs =
     [(''/d'', Dir), (''/d/scene.par'', File scene_par_text), (''/d/scene.unw'', File grid18),
      (''/d/scene.phi'', File zeros18), (''/d/scene.theta'', File zeros18)]"

text \<open>The product without the optional \<open>phi\<close> and \<open>theta\<close> grids.\<close>

definition bare_fs :: filesystem where
  "bare_fs =
     [(''/d'', Dir), (''/d/scene.par'', File scene_par_text), (''/d/scene.unw'', File grid20)]"


text \<open>
  The product with a displacement file that starts 1.0, +0.0, -0.0, 2.0, -1.5 and goes
  on with 1.0.
\<close>

definition zero_grid :: string where
  "zero_grid = bytes
      [63,128,0,0, 0,0,0,0, 128,0,0,0, 64,0,0,0, 191,192,0,0,
       63,128,0,0, 63,128,0,0, 63,128,0,0, 63,128,0,0, 63,128,0,0,
       63,128,0,0, 63,128,0,0, 63,128,0,0, 63,128,0,0, 63,128,0,0,
       63,128,0,0, 63,128,0,0, 63,128,0,0, 63,128,0,0, 63,128,0,0]"

definition zero_fs :: filesystem where
  "zero_fs =
     [(''/d'', Dir), (''/d/scene.par'', File scene_par_text), (''/d/scene.unw'', File zero_grid),
      (''/d/scene.phi'', File zeros20), (''/d/scene.theta'', File zeros20)]"

definition start :: "filesystem \<Rightarrow> world" where
  "start fs = \<lparr>container = empty_container, disk = fs, logged = []\<rparr>"

text \<open>
  The cosine used in the examples: exact at zero, the only argument the examples
  give it (their \<open>theta\<close> grids hold zeros, and a missing grid defaults to zero).
\<close>

definition cos_at_zero :: "dtype \<Rightarrow> fl \<Rightarrow> fl" where
  "cos_at_zero dt x = (if is_zero x then fl_one else NaN)"

text \<open>The items of the example files, and the containers \<open>read\<close> returns for them.\<close>

definition grid20_items :: "fl list" where
  "grid20_items =
      [Fin False 1 0, Fin False 1 1, Fin True 3 (- 1),
       Fin False 75 1, Fin False 1 (- 1), Fin False 1 0,
       Fin False 1 1, Fin True 3 (- 1), Fin False 75 1,
       Fin False 1 (- 1), Fin False 1 0, Fin False 1 1,
       Fin True 3 (- 1), Fin False 75 1, Fin False 1 (- 1),
       Fin False 1 0, Fin False 1 1, Fin True 3 (- 1),
       Fin False 75 1, Fin False 1 (- 1)]"

definition zero_grid_items :: "fl list" where
  "zero_grid_items =
      [Fin False 1 0, Fin False 0 0, Fin True 0 0,
       Fin False 1 1, Fin True 3 (- 1), Fin False 1 0,
       Fin False 1 0, Fin False 1 0, Fin False 1 0,
       Fin False 1 0, Fin False 1 0, Fin False 1 0,
       Fin False 1 0, Fin False 1 0, Fin False 1 0,
       Fin False 1 0, Fin False 1 0, Fin False 1 0,
       Fin False 1 0, Fin False 1 0]"

definition grid45 :: "dtype \<Rightarrow> fl list \<Rightarrow> pyval" where
  "grid45 dt xs = PyArr \<lparr>dtype = dt, shape = [4, 5], cells = xs\<rparr>"

definition scene_geo :: "pyval \<Rightarrow> pyval \<Rightarrow> pyval \<Rightarrow> container" where
  "scene_geo ph th d =
     \<lparr>phi = ph, theta = th, displacement = d, llLon = PyFloat (Fin False 5 2),
      llLat = PyFloat (Fin False 15 (- 1)), dLat = PyFloat (Fin True 1 (- 1)),
      dLon = PyFloat (Fin False 1 (- 1))\<rparr>"

definition zeros45 :: "fl list" where
  "zeros45 =
      [Fin False 0 0, Fin False 0 0, Fin False 0 0, Fin False 0 0,
       Fin False 0 0, Fin False 0 0, Fin False 0 0, Fin False 0 0,
       Fin False 0 0, Fin False 0 0, Fin False 0 0, Fin False 0 0,
       Fin False 0 0, Fin False 0 0, Fin False 0 0, Fin False 0 0,
       Fin False 0 0, Fin False 0 0, Fin False 0 0, Fin False 0 0]"

definition ones45 :: "fl list" where
  "ones45 =
      [Fin False 1 0, Fin False 1 0, Fin False 1 0, Fin False 1 0,
       Fin False 1 0, Fin False 1 0, Fin False 1 0, Fin False 1 0,
       Fin False 1 0, Fin False 1 0, Fin False 1 0, Fin False 1 0,
       Fin False 1 0, Fin False 1 0, Fin False 1 0, Fin False 1 0,
       Fin False 1 0, Fin False 1 0, Fin False 1 0, Fin False 1 0]"

definition scene_container :: container where
  "scene_container =
     scene_geo (grid45 F32 zeros45) (grid45 F32 ones45)
       (grid45 F32
         [Fin False 5368709 (- 29), Fin False 5368709 (- 28),
         Fin True 16106127 (- 30), Fin False 3 (- 1),
         Fin False 5368709 (- 30), Fin False 5368709 (- 29),
         Fin False 5368709 (- 28), Fin True 16106127 (- 30),
         Fin False 3 (- 1), Fin False 5368709 (- 30),
         Fin False 5368709 (- 29), Fin False 5368709 (- 28),
         Fin True 16106127 (- 30), Fin False 3 (- 1),
         Fin False 5368709 (- 30), Fin False 5368709 (- 29),
         Fin False 5368709 (- 28), Fin True 16106127 (- 30),
         Fin False 3 (- 1), Fin False 5368709 (- 30)])"

definition cut_container :: container where
  "cut_container =
     scene_geo (grid45 F64 (take 18 zeros45 @ [NaN, NaN]))
       (grid45 F64 (take 18 ones45 @ [NaN, NaN]))
       (grid45 F64
         [Fin False 5764607523034235 (- 59), Fin False 5764607523034235 (- 58),
         Fin True 1080863910568919 (- 56), Fin False 3 (- 1),
         Fin False 5764607523034235 (- 60), Fin False 5764607523034235 (- 59),
         Fin False 5764607523034235 (- 58), Fin True 1080863910568919 (- 56),
         Fin False 3 (- 1), Fin False 5764607523034235 (- 60),
         Fin False 5764607523034235 (- 59), Fin False 5764607523034235 (- 58),
         Fin True 1080863910568919 (- 56), Fin False 3 (- 1),
         Fin False 5764607523034235 (- 60), Fin False 5764607523034235 (- 59),
         Fin False 5764607523034235 (- 58), Fin True 1080863910568919 (- 56),
         NaN, NaN])"

definition zero_container :: container where
  "zero_container =
     scene_geo (grid45 F32 zeros45) (grid45 F32 ones45)
       (grid45 F32
         [Fin False 5368709 (- 29), NaN,
         NaN, Fin False 5368709 (- 28),
         Fin True 16106127 (- 30), Fin False 5368709 (- 29),
         Fin False 5368709 (- 29), Fin False 5368709 (- 29),
         Fin False 5368709 (- 29), Fin False 5368709 (- 29),
         Fin False 5368709 (- 29), Fin False 5368709 (- 29),
         Fin False 5368709 (- 29), Fin False 5368709 (- 29),
         Fin False 5368709 (- 29), Fin False 5368709 (- 29),
         Fin False 5368709 (- 29), Fin False 5368709 (- 29),
         Fin False 5368709 (- 29), Fin False 5368709 (- 29)])"

definition found_log :: "(level \<times> string) list" where
  "found_log =
     [(Debug, ''Found parameter file /d/scene.par''),
      (Debug, ''Found *phi* in /d/scene.phi''),
      (Debug, ''Found *theta* in /d/scene.theta'')]"

definition default_log :: "(level \<times> string) list" where
  "default_log =
     [(Debug, ''Found parameter file /d/scene.par''),
      (Warning, ''Could not find *phi* file, defaulting to 0.''),
      (Warning, ''Could not find *theta* file, defaulting to 0.'')]"

text \<open>
  A synthetic ISCE product in the directory \<open>/p\<close>. The metadata has two coordinates
  of size 2; the second, the latitude, starts at 10.0 with the negative delta -0.5.
  The bytes of the metadata file are not modelled: in the examples the parser
  \<open>isce_parse\<close> returns \<open>isce_tree\<close> for it. The displacement file has the rows
  (1.0, 1.0, 0.0, 2.0) and (1.0, 1.0, -1.5, 150.0) as little-endian binary32, the
  look-vector file twice the row (0.0, 0.0, 0.0, 1.0).
\<close>

definition xprop :: "string \<Rightarrow> string \<Rightarrow> xml" where
  "xprop name v = Elem ''property'' [(''name'', name)] None [Elem ''value'' [] (Some v) []]"

definition isce_tree :: xml where
  "isce_tree =
     Elem ''imageFile'' [] None
       [xprop ''width'' ''2'',
        Elem ''component'' [(''name'', ''coordinate1'')] None
          [xprop ''delta'' ''0.5'', xprop ''size'' ''2'', xprop ''startingvalue'' ''20.0''],
        Elem ''component'' [(''name'', ''coordinate2'')] None
          [xprop ''delta'' ''-0.5'', xprop ''size'' ''2'', xprop ''startingvalue'' ''10.0'']]"

definition isce_parse :: "string \<Rightarrow> xml option" where
  "isce_parse b = Some isce_tree"

definition isce_grid :: string where
  "isce_grid = bytes
      [0,0,128,63, 0,0,128,63, 0,0,0,0, 0,0,0,64,
       0,0,128,63, 0,0,128,63, 0,0,192,191, 0,0,22,67]"

definition isce_grid_after :: string where
  "isce_grid_after = bytes
      [0,0,128,63, 0,0,128,63, 0,0,192,127, 0,0,0,64,
       0,0,128,63, 0,0,128,63, 0,0,192,191, 0,0,22,67]"

definition isce_los :: string where
  "isce_los = bytes
      [0,0,0,0, 0,0,0,0, 0,0,0,0, 0,0,128,63,
       0,0,0,0, 0,0,0,0, 0,0,0,0, 0,0,128,63]"

definition isce_fs :: filesystem where
  "isce_fs =
     [(''/p'', Dir), (''/p/f.unw.geo'', File isce_grid), (''/p/f.unw.geo.xml'', File ''<imageFile/>''),
      (''/p/los.rdr.geo'', File isce_los)]"

definition isce_fs_after :: filesystem where
  "isce_fs_after =
     [(''/p'', Dir), (''/p/f.unw.geo'', File isce_grid_after),
      (''/p/f.unw.geo.xml'', File ''<imageFile/>''), (''/p/los.rdr.geo'', File isce_los)]"

text \<open>The same product without the look-vector file.\<close>

definition nolos_fs :: filesystem where
  "nolos_fs =
     [(''/p'', Dir), (''/p/f.unw.geo'', File isce_grid), (''/p/f.unw.geo.xml'', File ''<imageFile/>'')]"

definition nolos_fs_after :: filesystem where
  "nolos_fs_after =
     [(''/p'', Dir), (''/p/f.unw.geo'', File isce_grid_after),
      (''/p/f.unw.geo.xml'', File ''<imageFile/>'')]"

definition isce_lon :: "(string option, pyval) dict" where
  "isce_lon =
     [(Some ''delta'', PyFloat (Fin False 1 (- 1))), (Some ''size'', PyFloat (Fin False 1 1)),
      (Some ''startingvalue'', PyFloat (Fin False 5 2))]"

definition isce_lat :: "(string option, pyval) dict" where
  "isce_lat =
     [(Some ''delta'', PyFloat (Fin True 1 (- 1))), (Some ''size'', PyFloat (Fin False 1 1)),
      (Some ''startingvalue'', PyFloat (Fin False 5 1))]"

definition grid22 :: "fl list \<Rightarrow> pyval" where
  "grid22 xs = PyArr \<lparr>dtype = F32, shape = [2, 2], cells = xs\<rparr>"

definition isce_geo :: "pyval \<Rightarrow> pyval \<Rightarrow> container" where
  "isce_geo ph th =
     \<lparr>phi = ph, theta = th,
      displacement =
        grid22 [NaN, Fin False 5368709 (- 28), Fin True 16106127 (- 30), Fin False 3 (- 1)],
      llLon = PyFloat (Fin False 5 2), llLat = PyFloat (Fin False 9 0),
      dLat = NpFloat (Fin False 1 (- 1)), dLon = NpFloat (Fin False 1 (- 1))\<rparr>"

definition isce_container :: container where
  "isce_container =
     isce_geo (grid22 [Fin False 0 0, Fin False 0 0, Fin False 0 0, Fin False 0 0])
       (grid22 [Fin False 45 1, Fin False 91 0, Fin False 45 1, Fin False 91 0])"


text \<open>
  A Matlab file with a 2 by 2 interferogram and coordinate grids as \<open>meshgrid\<close>
  makes them: \<open>xx\<close> varies along the rows, \<open>yy\<close> is constant along them. The easting
  2000000 is beyond what a UTM zone holds, so the conversion refuses the
  coordinates; in the examples \<open>refuse\<close> stands for \<open>utm.to_latlon\<close> and
  \<open>load_scene_mat\<close> for \<open>scipy.io.loadmat\<close>, which adds the header entries.
\<close>

definition grid64 :: "fl list \<Rightarrow> pyval" where
  "grid64 xs = PyArr \<lparr>dtype = F64, shape = [2, 2], cells = xs\<rparr>"

definition scene_mat :: "(string, pyval) dict" where
  "scene_mat =
     [(''__header__'', PyStr ''MATLAB 5.0 MAT-file''), (''__version__'', PyStr ''1.0''),
      (''ig_1'', grid64 [Fin False 1 0, Fin False 1 1, Fin False 3 0, Fin False 1 2]),
      (''xx'', grid64 [Fin False 15625 7, Fin False 250125 3,
                       Fin False 15625 7, Fin False 250125 3]),
      (''yy'', grid64 [Fin False 78125 6, Fin False 78125 6,
                       Fin False 625125 3, Fin False 625125 3])]"

definition load_scene_mat :: "filesystem \<Rightarrow> string \<Rightarrow> exn + (string, pyval) dict" where
  "load_scene_mat fs p = (if is_file fs p then Inr scene_mat else Inl (IOError p))"

definition refuse :: "fl \<Rightarrow> fl \<Rightarrow> nat \<Rightarrow> string \<Rightarrow> (pyval \<times> pyval) option" where
  "refuse e n z l = None"

definition mat_fs :: filesystem where
  "mat_fs = [(''/m'', Dir), (''/m/scene.mat'', File ''MATLAB 5.0 MAT-file'')]"

text \<open>
  A directory in which a subdirectory has a name that ends in \<open>par\<close>: no Gamma
  product.
\<close>

definition odd_fs :: filesystem where
  "odd_fs = [(''/d'', Dir), (''/d/scene.unw'', File grid20), (''/d/oldpar'', Dir)]"

definition mat_container :: container where
  "mat_container =
     \<lparr>phi = PyNone, theta = PyNone,
      displacement = grid64 [Fin False 1 0, Fin False 1 1, Fin False 3 0, Fin False 1 2],
      llLon = PyFloat (Fin False 0 0), llLat = PyFloat (Fin False 0 0),
      dLat = NpFloat (Fin False 2620276146833743 (- 58)), dLon = NpFloat (Fin False 0 0)\<rparr>"

text \<open>The coordinate vectors of the example, flattened.\<close>

definition xx_flat :: ndarray where
  "xx_flat =
     \<lparr>dtype = F64, shape = [4],
      cells = [Fin False 15625 7, Fin False 250125 3, Fin False 15625 7, Fin False 250125 3]\<rparr>"

definition yy_flat :: ndarray where
  "yy_flat =
     \<lparr>dtype = F64, shape = [4],
      cells = [Fin False 78125 6, Fin False 78125 6, Fin False 625125 3, Fin False 625125 3]\<rparr>"

definition mat_scanned :: world where
  "mat_scanned =
     \<lparr>container =
        empty_container
          \<lparr>displacement := grid64 [Fin False 1 0, Fin False 1 1, Fin False 3 0, Fin False 1 2]\<rparr>,
      disk = mat_fs, logged = []\<rparr>"

section \<open>Evaluation\<close>

text \<open>The defining equations by which closed examples are computed, by layer.\<close>

lemmas float_eval =
  round_ratio_def round_exp_def finish_def round_quot_def round_half_even_def
  floor_log2_def fl2_adjust_def bitlen.simps mk_fin_def odd_part.simps ratio_num_def
  ratio_den_def add_round_def scaled_def fl_sub_def fl_of_int_def

lemmas const_eval =
  fl_zero_def fl_neg_zero_def fl_one_def fl_1em2_def fl_1e3_def fl_1e4_def fl_110e3_def
  fl_90_def

lemmas string_eval =
  ord_def is_digit_def is_alpha_def is_space_def lower_ord_def eq_nocase_def strip_def
  py_float_def float_signed_def float_unsigned_def after_int_def decimal_parts_def
  exp_digits_def dec_to_fl_def int_unsigned_def int_signed_def py_int_str_def last4_def

lemmas regex_eval = re_match_def par_pattern_def grow_def close_group_def

lemmas path_eval =
  realpath_def abspath_def is_slash_def trim_head_def dirname_def basename_def
  path_join_def

lemmas glob_eval = is_file_def is_dir_def shown_def glob_in_def glob_def

lemmas parse_eval =
  Gamma_parseParameterFile_def read_file_def parse_line_def store_groups_def
  param_value_def required_def

lemmas decode_eval = f32_fields_def f32_of_bits_def be32_def vector_def

lemmas numpy_eval =
  reshape_dims_def np_reshape_def recode_def set_nan_where_eq_def arr_mul_def
  arr_add_def vector_def

lemmas state_eval =
  set_phi_def set_theta_def set_displacement_def set_llLon_def set_llLat_def
  set_dLat_def set_dLon_def return_container_def log_msg_def empty_container_def

lemmas Gamma_eval =
  Gamma_getParameterFile_def pop_par_file_def validate_par_def Gamma_validate_def
  angle_of_matches_def Gamma_getAngle_def par_int_def parse_error_def read_dims_def
  fill_cells_def fill_for_def append_fill_def shape_displ_def with_fill_def
  shape_angles_def par_get_def lower_left_lat_def store_angles_def store_dLat_def
  store_dLon_def store_llLon_def store_llLat_def Gamma_store_def read_shaped_def
  read_theta_def read_phi_def read_filled_def read_grid_def read_file_grid_def
  read_parsed_def read_with_par_def Gamma_read_def

text \<open>The literals of the source are read by \<open>float\<close> as the constants above.\<close>

lemma float_literals:
  "py_float ''1e-2'' = Some fl_1em2"
  "py_float ''1e3'' = Some fl_1e3"
  "py_float ''1e4'' = Some fl_1e4"
  "py_float ''110e3'' = Some fl_110e3"
  "py_float ''90.'' = Some fl_90"
  "py_float ''0.'' = Some fl_zero"
  "py_float ''-0.'' = Some fl_neg_zero"
  by (simp_all add: string_eval float_eval const_eval)

lemma cast_1em2:
  "fl_cast F32 fl_1em2 = Fin False 5368709 (- 29)"
  "fl_cast F64 fl_1em2 = fl_1em2"
  by (simp_all add: float_eval const_eval)

section \<open>Missing parameters\<close>

text \<open>\<open>check_required\<close> stops at the first key of its list that the dictionary lacks.\<close>

lemma check_required_find:
  "check_required rs params =
     (case find (\<lambda>r. dict_get params r = None) rs of
        None \<Rightarrow> Inr params
      | Some r \<Rightarrow> Inl (ImportError [''Parameter file does not hold required parameter '' @ r]))"
  by (induction rs) (auto split: option.splits)

lemma short_par_lines:
  "foldl parse_line [] (py_lines [] short_par_text) = short_par"
  by (simp add: short_par_text_def short_par_def parse_eval string_eval regex_eval float_eval)

text \<open>
  C8 (as amended). When the parameter file can be read and its lines leave a required
  key undefined, \<open>_parseParameterFile\<close> raises an \<open>ImportError\<close> whose message names one
  key: the first of \<open>corner_lat, corner_lon, nlines, width, post_lat, post_lon\<close> that is
  missing. Keys missing after it are not named.
\<close>

theorem parse_names_first_missing:
  assumes "read_file fs par_file = Inr txt"
    and "find (\<lambda>r. dict_get (foldl parse_line [] (py_lines [] txt)) r = None) required = Some r"
  shows "Gamma_parseParameterFile fs par_file =
           Inl (ImportError [''Parameter file does not hold required parameter '' @ r])"
  using assms by (simp add: Gamma_parseParameterFile_def check_required_find)

theorem parse_names_first_missing_witness:
  "read_file [(''/d/short.par'', File short_par_text)] ''/d/short.par'' = Inr short_par_text
   \<and> find (\<lambda>r. dict_get (foldl parse_line [] (py_lines [] short_par_text)) r = None) required
       = Some ''nlines''
   \<and> Gamma_parseParameterFile [(''/d/short.par'', File short_par_text)] ''/d/short.par''
       = Inl (ImportError [''Parameter file does not hold required parameter nlines''])"
proof -
  have f: "read_file [(''/d/short.par'', File short_par_text)] ''/d/short.par'' = Inr short_par_text"
    by (simp add: read_file_def)
  have m: "find (\<lambda>r. dict_get (foldl parse_line [] (py_lines [] short_par_text)) r = None) required
             = Some ''nlines''"
    by (simp add: short_par_lines short_par_def required_def)
  show ?thesis
    using f m parse_names_first_missing [OF f m] by simp
qed

text \<open>
  C8 as stated fails: with \<open>nlines\<close> and \<open>post_lon\<close> both missing, the error names
  \<open>nlines\<close> and does not mention \<open>post_lon\<close>.
\<close>

theorem parse_names_one_key_only:
  "dict_get (foldl parse_line [] (py_lines [] short_par_text)) ''nlines'' = None
   \<and> dict_get (foldl parse_line [] (py_lines [] short_par_text)) ''post_lon'' = None
   \<and> Gamma_parseParameterFile [(''/d/short.par'', File short_par_text)] ''/d/short.par''
       = Inl (ImportError [''Parameter file does not hold required parameter nlines''])
   \<and> \<not> py_in ''post_lon'' ''Parameter file does not hold required parameter nlines''"
  by (simp add: Gamma_parseParameterFile_def read_file_def short_par_lines short_par_def
      required_def)
section \<open>The Gamma reader: what a successful \<open>read\<close> has done\<close>

lemma try_par_files_frame:
  "try_par_files ps w = (r, w1) \<Longrightarrow> disk w1 = disk w \<and> container w1 = container w"
  by (induction ps) (auto simp: log_msg_def split: sum.splits exn.splits)

lemma getParameterFile_frame:
  "Gamma_getParameterFile path w = (r, w1) \<Longrightarrow> disk w1 = disk w \<and> container w1 = container w"
  unfolding Gamma_getParameterFile_def by (rule try_par_files_frame)

lemma Gamma_store_success:
  assumes "Gamma_store par nrows displ th ph w = (Inr c, w')"
  shows "displacement c = PyArr (arr_mul displ fl_1em2) \<and> lower_left_lat par nrows = Inr (llLat c)"
  using assms
  by (auto simp: Gamma_store_def store_llLat_def store_llLon_def store_dLon_def store_dLat_def
      store_angles_def state_eval split: sum.splits)

lemma read_phi_success:
  assumes "read_phi cosf filename par nrows nlines displ fill w = (Inr c, w')"
  shows "displacement c = PyArr (arr_mul displ fl_1em2) \<and> lower_left_lat par nrows = Inr (llLat c)"
  using assms
  by (auto simp: read_phi_def read_theta_def read_shaped_def split: sum.splits prod.splits
      dest: Gamma_store_success)

lemma read_grid_success:
  assumes "read_grid cosf filename par nrows nlines raw w = (Inr c, w')"
  shows "\<exists>fill displ. fill_for nrows (length (cells raw)) = Inr fill
           \<and> shape_displ raw fill nlines nrows = Inr displ
           \<and> displacement c = PyArr (arr_mul displ fl_1em2)
           \<and> lower_left_lat par nrows = Inr (llLat c)"
  using assms
  by (auto simp: read_grid_def read_filled_def split: sum.splits dest: read_phi_success)

lemma Gamma_read_success:
  assumes "Gamma_read cosf filename kw w = (Inr c, w')"
  shows "\<exists>dflt w1 par nrows nlines raw fill displ.
           Gamma_getParameterFile filename w = (Inr dflt, w1)
           \<and> Gamma_parseParameterFile (disk w) (pop_par_file kw dflt) = Inr par
           \<and> read_dims par (pop_par_file kw dflt) = Inr (nrows, nlines)
           \<and> np_fromfile Big (disk w) filename = Inr raw
           \<and> fill_for nrows (length (cells raw)) = Inr fill
           \<and> shape_displ raw fill nlines nrows = Inr displ
           \<and> displacement c = PyArr (arr_mul displ fl_1em2)
           \<and> lower_left_lat par nrows = Inr (llLat c)"
proof -
  obtain dflt w1 where g: "Gamma_getParameterFile filename w = (Inr dflt, w1)"
    and r1: "read_with_par cosf filename (pop_par_file kw dflt) w1 = (Inr c, w')"
    using assms by (auto simp: Gamma_read_def split: sum.splits prod.splits)
  have d: "disk w1 = disk w" using getParameterFile_frame [OF g] by simp
  obtain par where p: "Gamma_parseParameterFile (disk w) (pop_par_file kw dflt) = Inr par"
    and r2: "read_parsed cosf filename (pop_par_file kw dflt) par w1 = (Inr c, w')"
    using r1 d by (auto simp: read_with_par_def split: sum.splits)
  obtain nrows nlines where dm: "read_dims par (pop_par_file kw dflt) = Inr (nrows, nlines)"
    and r3: "read_file_grid cosf filename par nrows nlines w1 = (Inr c, w')"
    using r2 by (auto simp: read_parsed_def split: sum.splits)
  obtain raw where f: "np_fromfile Big (disk w) filename = Inr raw"
    and r4: "read_grid cosf filename par nrows nlines raw w1 = (Inr c, w')"
    using r3 d by (auto simp: read_file_grid_def split: sum.splits)
  from read_grid_success [OF r4] g p dm f show ?thesis by blast
qed

text \<open>The cells of the shaped grid: the items and the fill, zeros recoded.\<close>

lemma shape_displ_cells:
  assumes "shape_displ raw fill nlines nrows = Inr displ"
  shows "cells displ = map (recode fl_neg_zero) (cells (append_fill raw fill))
         \<and> dtype displ = dtype (append_fill raw fill)"
  using assms
  by (auto simp: shape_displ_def np_reshape_def set_nan_where_eq_def split: sum.splits option.splits)



lemma recode_zero: "is_zero x \<Longrightarrow> recode fl_neg_zero x = NaN"
  by (cases x) (simp_all add: recode_def fl_neg_zero_def)

lemma Gamma_cell_zero: "is_zero x \<Longrightarrow> Gamma_cell dt x = NaN"
  by (simp add: Gamma_cell_def recode_zero)



section \<open>The example products, computed\<close>

lemma scene_par_parses:
  "read_file fs p = Inr scene_par_text \<Longrightarrow> Gamma_parseParameterFile fs p = Inr scene_par"
  by (simp add: Gamma_parseParameterFile_def parse_line_def store_groups_def param_value_def
      required_def scene_par_text_def string_eval regex_eval float_eval scene_par_def)

lemma decode_grid20: "decode_be grid20 = grid20_items"
  by (simp add: grid20_def grid18_def bytes_def decode_eval ord_def float_eval grid20_items_def)

lemma decode_grid18: "decode_be grid18 = take 18 grid20_items"
  by (simp add: grid18_def bytes_def decode_eval ord_def float_eval grid20_items_def)

lemma decode_zero_grid: "decode_be zero_grid = zero_grid_items"
  by (simp add: zero_grid_def bytes_def decode_eval ord_def float_eval zero_grid_items_def)

lemma decode_zeros20: "decode_be zeros20 = zeros45"
  by (simp add: zeros20_def zeros18_def bytes_def decode_eval ord_def float_eval zeros45_def)

lemma decode_zeros18: "decode_be zeros18 = take 18 zeros45"
  by (simp add: zeros18_def bytes_def decode_eval ord_def float_eval zeros45_def)

lemma grid_sizes:
  "length grid18 = 72" "length grid20 = 80" "length zero_grid = 80"
  "length zeros18 = 72" "length zeros20 = 80" "zeros18 \<noteq> []" "zeros20 \<noteq> []"
  by (simp_all add: grid20_def grid18_def zero_grid_def zeros18_def zeros20_def bytes_def)

lemma scene_files:
  "read_file scene_fs ''/d/scene.par'' = Inr scene_par_text"
  "read_file scene_fs ''/d/scene.unw'' = Inr grid20"
  "read_file scene_fs ''/d/scene.phi'' = Inr zeros20"
  "read_file scene_fs ''/d/scene.theta'' = Inr zeros20"
  by (simp_all add: read_file_def scene_fs_def)

lemma scene_globs:
  "glob scene_fs ''/d/*par'' = [''/d/scene.par'']"
  "glob scene_fs ''/d/*phi*'' = [''/d/scene.phi'']"
  "glob scene_fs ''/d/*theta*'' = [''/d/scene.theta'']"
  by (simp_all add: path_eval glob_eval scene_fs_def)

lemma cut_files:
  "read_file cut_fs ''/d/scene.par'' = Inr scene_par_text"
  "read_file cut_fs ''/d/scene.unw'' = Inr grid18"
  "read_file cut_fs ''/d/scene.phi'' = Inr zeros18"
  "read_file cut_fs ''/d/scene.theta'' = Inr zeros18"
  by (simp_all add: read_file_def cut_fs_def)

lemma cut_globs:
  "glob cut_fs ''/d/*par'' = [''/d/scene.par'']"
  "glob cut_fs ''/d/*phi*'' = [''/d/scene.phi'']"
  "glob cut_fs ''/d/*theta*'' = [''/d/scene.theta'']"
  by (simp_all add: path_eval glob_eval cut_fs_def)

lemma bare_files:
  "read_file bare_fs ''/d/scene.par'' = Inr scene_par_text"
  "read_file bare_fs ''/d/scene.unw'' = Inr grid20"
  by (simp_all add: read_file_def bare_fs_def)

lemma bare_globs:
  "glob bare_fs ''/d/*par'' = [''/d/scene.par'']"
  "glob bare_fs ''/d/*phi*'' = []"
  "glob bare_fs ''/d/*theta*'' = []"
  by (simp_all add: path_eval glob_eval bare_fs_def)

lemma zero_files:
  "read_file zero_fs ''/d/scene.par'' = Inr scene_par_text"
  "read_file zero_fs ''/d/scene.unw'' = Inr zero_grid"
  "read_file zero_fs ''/d/scene.phi'' = Inr zeros20"
  "read_file zero_fs ''/d/scene.theta'' = Inr zeros20"
  by (simp_all add: read_file_def zero_fs_def)

lemma zero_globs:
  "glob zero_fs ''/d/*par'' = [''/d/scene.par'']"
  "glob zero_fs ''/d/*phi*'' = [''/d/scene.phi'']"
  "glob zero_fs ''/d/*theta*'' = [''/d/scene.theta'']"
  by (simp_all add: path_eval glob_eval zero_fs_def)

lemma replicate_two: "replicate 2 x = [x, x]"
  by (simp add: numeral_2_eq_2)

lemmas read_eval =
  Gamma_eval state_eval path_eval numpy_eval np_fromfile_def np_memmap_def const_eval
  cast_1em2 [unfolded fl_1em2_def] float_eval scene_par_parses scene_par_def cos_at_zero_def
  grid_sizes start_def replicate_two

lemmas result_eval =
  scene_geo_def grid45_def zeros45_def ones45_def grid20_items_def zero_grid_items_def
  found_log_def default_log_def

lemma scene_getpar:
  "Gamma_getParameterFile ''/d/scene.unw'' (start scene_fs) =
     (Inr ''/d/scene.par'',
      \<lparr>container = empty_container, disk = scene_fs,
       logged = [(Debug, ''Found parameter file /d/scene.par'')]\<rparr>)"
  by (simp add: read_eval scene_files scene_globs)

lemma cut_getpar:
  "Gamma_getParameterFile ''/d/scene.unw'' (start cut_fs) =
     (Inr ''/d/scene.par'',
      \<lparr>container = empty_container, disk = cut_fs,
       logged = [(Debug, ''Found parameter file /d/scene.par'')]\<rparr>)"
  by (simp add: read_eval cut_files cut_globs)

lemma zero_getpar:
  "Gamma_getParameterFile ''/d/scene.unw'' (start zero_fs) =
     (Inr ''/d/scene.par'',
      \<lparr>container = empty_container, disk = zero_fs,
       logged = [(Debug, ''Found parameter file /d/scene.par'')]\<rparr>)"
  by (simp add: read_eval zero_files zero_globs)

lemma scene_read:
  "Gamma_read cos_at_zero ''/d/scene.unw'' None (start scene_fs) =
     (Inr scene_container,
      \<lparr>container = scene_container, disk = scene_fs, logged = found_log\<rparr>)"
  by (simp add: read_eval scene_files scene_globs decode_grid20 decode_zeros20 result_eval
      scene_container_def)

lemma cut_read:
  "Gamma_read cos_at_zero ''/d/scene.unw'' None (start cut_fs) =
     (Inr cut_container,
      \<lparr>container = cut_container, disk = cut_fs, logged = found_log\<rparr>)"
  by (simp add: read_eval cut_files cut_globs decode_grid18 decode_zeros18 result_eval
      cut_container_def)

lemma zero_read:
  "Gamma_read cos_at_zero ''/d/scene.unw'' None (start zero_fs) =
     (Inr zero_container,
      \<lparr>container = zero_container, disk = zero_fs, logged = found_log\<rparr>)"
  by (simp add: read_eval zero_files zero_globs decode_zero_grid decode_zeros20 result_eval
      zero_container_def)

lemma bare_read:
  "Gamma_read cos_at_zero ''/d/scene.unw'' None (start bare_fs) =
     (Inl ValueError, \<lparr>container = empty_container, disk = bare_fs, logged = default_log\<rparr>)"
  by (simp add: read_eval bare_files bare_globs decode_grid20 result_eval)

section \<open>The Gamma reader: claims\<close>

section \<open>The Gamma reader: when \<open>read\<close> succeeds\<close>






section \<open>The Gamma reader: padding\<close>




text \<open>
  C2 fails on the code. \<open>read\<close> computes \<open>llLat\<close> as
  \<open>par['corner_lat'] + par['post_lat'] * nrows\<close>, and \<open>nrows\<close> is \<open>int(par['width'])\<close>,
  not \<open>nlines\<close>. For the example product (\<open>corner_lat\<close> 10.0, \<open>post_lat\<close> -0.5,
  \<open>nlines\<close> 4, \<open>width\<close> 5) the container holds 7.5, where
  \<open>corner_lat + post_lat * nlines\<close> is 8.0.
\<close>

theorem Gamma_llLat_uses_width:
  "fst (Gamma_read cos_at_zero ''/d/scene.unw'' None (start scene_fs)) = Inr scene_container
   \<and> llLat scene_container = PyFloat (Fin False 15 (- 1))
   \<and> dict_get scene_par ''corner_lat'' = Some (PyFloat (Fin False 5 1))
   \<and> dict_get scene_par ''post_lat'' = Some (PyFloat (Fin True 1 (- 1)))
   \<and> par_int scene_par ''nlines'' = Inr 4
   \<and> par_int scene_par ''width'' = Inr 5
   \<and> fl_add F64 (Fin False 5 1) (fl_mul F64 (Fin True 1 (- 1)) (fl_of_int 4)) = Fin False 1 3
   \<and> fl_add F64 (Fin False 5 1) (fl_mul F64 (Fin True 1 (- 1)) (fl_of_int 5)) = Fin False 15 (- 1)"
  by (simp add: scene_read scene_container_def scene_geo_def scene_par_def par_int_def
      float_eval)

text \<open>
  C3 as stated fails: the mask \<open>displ == -0.\<close> is an IEEE comparison, and \<open>+0.0\<close>
  compares equal to \<open>-0.0\<close>. In the product whose displacement file starts
  1.0, +0.0, -0.0, the cell of the item \<open>+0.0\<close> is NaN in the container, like the
  cell of \<open>-0.0\<close>.
\<close>

theorem Gamma_recodes_positive_zero:
  "fst (Gamma_read cos_at_zero ''/d/scene.unw'' None (start zero_fs)) = Inr zero_container
   \<and> read_file (disk (start zero_fs)) ''/d/scene.unw'' = Inr zero_grid
   \<and> decode_be zero_grid ! 1 = Fin False 0 0
   \<and> displacement zero_container = grid45 F32 (map (Gamma_cell F32) (decode_be zero_grid))
   \<and> Gamma_cell F32 (decode_be zero_grid ! 1) = NaN"
proof -
  have r: "fst (Gamma_read cos_at_zero ''/d/scene.unw'' None (start zero_fs)) = Inr zero_container"
    by (simp add: zero_read)
  have f: "read_file (disk (start zero_fs)) ''/d/scene.unw'' = Inr zero_grid"
    by (simp add: start_def zero_files)
  have c: "Gamma_cell F32 (Fin False 1 0) = Fin False 5368709 (- 29)"
    "Gamma_cell F32 (Fin False 1 1) = Fin False 5368709 (- 28)"
    "Gamma_cell F32 (Fin True 3 (- 1)) = Fin True 16106127 (- 30)"
    "Gamma_cell F32 (Fin False 0 0) = NaN"
    "Gamma_cell F32 (Fin True 0 0) = NaN"
    by (simp_all add: Gamma_cell_def recode_def cast_1em2 fl_neg_zero_def float_eval)
  have d: "displacement zero_container
             = grid45 F32 (map (Gamma_cell F32) (decode_be zero_grid))"
    by (simp add: decode_zero_grid zero_grid_items_def zero_container_def scene_geo_def c
        del: One_nat_def)
  have z: "decode_be zero_grid ! 1 = Fin False 0 0"
    by (simp add: decode_zero_grid zero_grid_items_def)
  show ?thesis
    using r f d z c(4) by simp
qed

text \<open>
  C3 (as amended). After a successful \<open>Gamma.read\<close>, the cell of every item of the
  displacement file that is a zero, negative or positive, is NaN.
\<close>

theorem Gamma_recodes_zeros:
  assumes rd: "Gamma_read cosf filename kw w = (Inr c, w')"
    and fl: "read_file (disk w) filename = Inr b"
  shows "\<exists>a. displacement c = PyArr a
             \<and> length (decode_be b) \<le> length (cells a)
             \<and> (\<forall>i < length (decode_be b). is_zero (decode_be b ! i) \<longrightarrow> cells a ! i = NaN)"
proof -
  obtain nrows nlines raw fill displ
    where ff: "np_fromfile Big (disk w) filename = Inr raw"
      and sh: "shape_displ raw fill nlines nrows = Inr displ"
      and dc: "displacement c = PyArr (arr_mul displ fl_1em2)"
    using Gamma_read_success [OF rd] by auto
  have raw: "cells raw = decode_be b"
    using ff fl by (auto simp: np_fromfile_def vector_def)
  obtain pad where cd: "cells displ = map (recode fl_neg_zero) (decode_be b @ pad)"
    using shape_displ_cells [OF sh] raw
    by (cases fill) (auto simp: append_fill_def vector_def)
  have "cells (arr_mul displ fl_1em2) ! i = NaN"
    if "i < length (decode_be b)" "is_zero (decode_be b ! i)" for i
    using that by (simp add: arr_mul_def cd nth_append recode_zero)
  then show ?thesis
    using dc cd by (auto simp: arr_mul_def)
qed

theorem Gamma_recodes_zeros_witness:
  "\<exists>a. displacement zero_container = PyArr a
        \<and> length (decode_be zero_grid) \<le> length (cells a)
        \<and> is_zero (decode_be zero_grid ! 1) \<and> cells a ! 1 = NaN
        \<and> is_zero (decode_be zero_grid ! 2) \<and> cells a ! 2 = NaN"
proof -
  have f: "read_file (disk (start zero_fs)) ''/d/scene.unw'' = Inr zero_grid"
    by (simp add: start_def zero_files)
  have z: "is_zero (decode_be zero_grid ! 1)" "is_zero (decode_be zero_grid ! 2)"
    "1 < length (decode_be zero_grid)" "2 < length (decode_be zero_grid)"
    by (simp_all add: decode_zero_grid zero_grid_items_def)
  from Gamma_recodes_zeros [OF zero_read f] z show ?thesis
    by blast
qed

text \<open>
  C4 fails on the code. Without \<open>phi\<close> and \<open>theta\<close> grids \<open>_getAngle\<close> logs its warning
  and returns the float \<open>0.\<close>, twice, but \<open>read\<close> then reshapes the angles to
  \<open>(nlines, nrows)\<close>: \<open>num.cos(0.)\<close> is a numpy scalar, one cell, and its \<open>reshape(4, 5)\<close>
  raises \<open>ValueError\<close>. The example product without the two grids is not decoded.
\<close>

theorem Gamma_missing_angles_fail:
  "glob bare_fs ''/d/*phi*'' = [] \<and> glob bare_fs ''/d/*theta*'' = []
   \<and> Gamma_read cos_at_zero ''/d/scene.unw'' None (start bare_fs) =
       (Inl ValueError,
        \<lparr>container = empty_container, disk = bare_fs,
         logged =
           [(Debug, ''Found parameter file /d/scene.par''),
            (Warning, ''Could not find *phi* file, defaulting to 0.''),
            (Warning, ''Could not find *theta* file, defaulting to 0.'')]\<rparr>)"
  by (simp add: bare_read bare_globs default_log_def)

section \<open>The ISCE reader: what \<open>read\<close> has done\<close>

lemmas ISCE_stage_eval =
  ISCE_los_def ISCE_displacement_def ISCE_llLon_def lat_origin_def ISCE_llLat_def
  prop_int_def ISCE_sizes_def abs_delta_def ISCE_dLon_def ISCE_dLat_def ISCE_coords_def
  ISCE_read_def

lemmas ISCE_eval =
  ISCEXMLParser_def type_convert_def convert_value_def getProperty_def ISCE_getLOSFile_def
  with_xml_def ISCE_getDisplacementFile_def ISCE_validate_def slice_bound_def cols_of_def
  cols_from_def cols_upto_def nan_le_def write_back_def rows.simps

text \<open>Writing NaN into the displacement file changes no listing and no container.\<close>

lemma dict_get_set:
  "dict_get (dict_set k v d) k' = (if k' = k then Some v else dict_get d k')"
  by (induction d) auto

lemma listdir_set:
  "dict_get fs p \<noteq> None \<Longrightarrow> listdir (dict_set p n fs) d = listdir fs d"
  by (induction fs) auto

lemma is_dir_set_file:
  "dict_get fs p = Some (File b) \<Longrightarrow> is_dir (dict_set p (File b') fs) d = is_dir fs d"
  by (auto simp: is_dir_def dict_get_set)

lemma glob_set_file:
  "dict_get fs p = Some (File b) \<Longrightarrow> glob (dict_set p (File b') fs) pat = glob fs pat"
  by (simp add: glob_def glob_in_def listdir_set is_dir_set_file)

lemma getLOSFile_set_file:
  "dict_get fs p = Some (File b) \<Longrightarrow>
     ISCE_getLOSFile (dict_set p (File b') fs) path = ISCE_getLOSFile fs path"
  by (simp add: ISCE_getLOSFile_def glob_set_file is_dir_set_file)

lemma write_back_frame:
  "container (write_back disp shaped nlon w) = container w"
  "logged (write_back disp shaped nlon w) = logged w"
  "ISCE_getLOSFile (disk (write_back disp shaped nlon w)) path = ISCE_getLOSFile (disk w) path"
  by (auto simp: write_back_def getLOSFile_set_file
      split: list.splits option.splits node.splits)



















lemma ISCE_los_success:
  assumes "ISCE_los path nlat nlon w = (Inr c, w')"
  shows "displacement c = displacement (container w) \<and> dLat c = dLat (container w)
         \<and> dLon c = dLon (container w) \<and> llLat c = llLat (container w)
         \<and> llLon c = llLon (container w)"
  using assms by (auto simp: ISCE_los_def state_eval split: sum.splits)



lemma ISCE_displacement_success:
  assumes "ISCE_displacement path nlat nlon w = (Inr c, w')"
  shows "\<exists>disp raw shaped.
           ISCE_getDisplacementFile (disk w) path = Inr disp
           \<and> np_memmap Little (disk w) disp = Inr raw
           \<and> np_reshape raw nlat (nlon * 2) = Inr shaped
           \<and> displacement c
               = PyArr (arr_mul (set_nan_where_eq fl_zero (cols_from nlon shaped)) fl_1em2)
           \<and> dLat c = dLat (container w) \<and> dLon c = dLon (container w)"
  using assms
  by (auto simp: ISCE_displacement_def set_displacement_def write_back_frame
      split: sum.splits dest!: ISCE_los_success)





lemma ISCE_read_success:
  assumes "ISCE_read et_parse path w = (Inr c, w')"
  shows "\<exists>disp root coord_lon coord_lat raw nlat nlon shaped.
           ISCE_getDisplacementFile (disk w) (abspath path) = Inr disp
           \<and> ISCEXMLParser et_parse (disk w) (disp @ ''.xml'') = Inr root
           \<and> getProperty root ''coordinate1'' = Inr coord_lon
           \<and> getProperty root ''coordinate2'' = Inr coord_lat
           \<and> abs_delta coord_lat = Inr (dLat c)
           \<and> abs_delta coord_lon = Inr (dLon c)
           \<and> prop_int coord_lon ''size'' = Inr nlon
           \<and> prop_int coord_lat ''size'' = Inr nlat
           \<and> np_memmap Little (disk w) disp = Inr raw
           \<and> np_reshape raw nlat (nlon * 2) = Inr shaped
           \<and> displacement c
               = PyArr (arr_mul (set_nan_where_eq fl_zero (cols_from nlon shaped)) fl_1em2)"
proof -
  obtain disp root where g: "ISCE_getDisplacementFile (disk w) (abspath path) = Inr disp"
    and x: "ISCEXMLParser et_parse (disk w) (disp @ ''.xml'') = Inr root"
    and r1: "ISCE_coords (abspath path) root w = (Inr c, w')"
    using assms by (auto simp: ISCE_read_def split: sum.splits)
  obtain lon lat where p: "getProperty root ''coordinate1'' = Inr lon"
    "getProperty root ''coordinate2'' = Inr lat"
    and r2: "ISCE_dLat (abspath path) lon lat w = (Inr c, w')"
    using r1 by (auto simp: ISCE_coords_def split: sum.splits)
  obtain va vo where ab: "abs_delta lat = Inr va" "abs_delta lon = Inr vo"
    and r3: "ISCE_sizes (abspath path) lon lat (set_dLon vo (set_dLat va w)) = (Inr c, w')"
    using r2 by (auto simp: ISCE_dLat_def ISCE_dLon_def split: sum.splits)
  obtain nlat nlon w3 where r4: "ISCE_displacement (abspath path) nlat nlon w3 = (Inr c, w')"
    and w3: "disk w3 = disk w" "dLat (container w3) = va" "dLon (container w3) = vo"
    and sz: "prop_int lon ''size'' = Inr nlon" "prop_int lat ''size'' = Inr nlat"
    using r3
    by (auto simp: ISCE_sizes_def ISCE_llLat_def ISCE_llLon_def state_eval split: sum.splits)
  from ISCE_displacement_success [OF r4] w3 g
  obtain raw shaped where "np_memmap Little (disk w) disp = Inr raw"
    "np_reshape raw nlat (nlon * 2) = Inr shaped"
    "displacement c = PyArr (arr_mul (set_nan_where_eq fl_zero (cols_from nlon shaped)) fl_1em2)"
    "dLat c = va" "dLon c = vo"
    by auto
  with g x p ab sz show ?thesis by blast
qed

text \<open>A value read from the metadata is a float or a string: \<open>int\<close> never gets its turn.\<close>

lemma float_unsigned_digits:
  assumes "ds \<noteq> []" "list_all is_digit ds"
  shows "\<exists>y. float_unsigned sg ds = Some y"
proof -
  have tw: "takeWhile is_digit ds = ds" and dw: "dropWhile is_digit ds = []"
    using assms by (simp_all add: list_all_iff)
  show ?thesis
    using assms(1) by (simp add: float_unsigned_def after_int_def decimal_parts_def tw dw)
qed

lemma int_implies_float: "py_int_str s = Some i \<Longrightarrow> py_float s \<noteq> None"
  by (auto simp: py_int_str_def py_float_def int_signed_def float_signed_def int_unsigned_def
      exp_digits_def split: list.splits if_splits intro!: float_unsigned_digits)

lemma type_convert_value:
  "type_convert t = Inr v \<Longrightarrow> (\<exists>x. v = PyFloat x) \<or> (\<exists>s. v = PyStr s)"
  by (auto simp: type_convert_def split: option.splits dest: int_implies_float)

lemma convert_value_value:
  "convert_value e = Inr v \<Longrightarrow> (\<exists>x. v = PyFloat x) \<or> (\<exists>s. v = PyStr s)"
  by (auto simp: convert_value_def split: option.splits dest: type_convert_value)

lemma component_values_value:
  assumes "component_values ps vs = Inr d"
    and "\<forall>k v. dict_get vs k = Some v \<longrightarrow> (\<exists>x. v = PyFloat x) \<or> (\<exists>s. v = PyStr s)"
  shows "\<forall>k v. dict_get d k = Some v \<longrightarrow> (\<exists>x. v = PyFloat x) \<or> (\<exists>s. v = PyStr s)"
  using assms
proof (induction ps arbitrary: vs)
  case Nil
  then show ?case by simp
next
  case (Cons p ps)
  then obtain v where v: "convert_value p = Inr v"
    and r: "component_values ps (dict_set (dict_get (xattrs p) ''name'') v vs) = Inr d"
    by (auto split: sum.splits)
  have "\<forall>k u. dict_get (dict_set (dict_get (xattrs p) ''name'') v vs) k = Some u
          \<longrightarrow> (\<exists>x. u = PyFloat x) \<or> (\<exists>s. u = PyStr s)"
    using Cons.prems(2) convert_value_value [OF v] by (auto simp: dict_get_set)
  from Cons.IH [OF r this] show ?case .
qed

lemma find_property_value:
  assumes "find_property es name = Inr (PropDict d)" "dict_get d k = Some v"
  shows "(\<exists>x. v = PyFloat x) \<or> (\<exists>s. v = PyStr s)"
  using assms
proof (induction es)
  case Nil
  then show ?case by simp
next
  case (Cons e es)
  then show ?case
    using component_values_value [of _ "[]" d]
    by (auto split: if_splits sum.splits)
qed

lemma abs_delta_float:
  assumes "getProperty root name = Inr p" "abs_delta p = Inr r"
  shows "\<exists>x. prop_item p ''delta'' = Inr (PyFloat x) \<and> r = NpFloat (fl_abs x)"
proof -
  obtain v where v: "prop_item p ''delta'' = Inr v" and a: "np_abs v = Inr r"
    using assms(2) by (auto simp: abs_delta_def split: sum.splits)
  obtain d where d: "p = PropDict d" "dict_get d (Some ''delta'') = Some v"
    using v by (cases p) (auto split: option.splits)
  have "(\<exists>x. v = PyFloat x) \<or> (\<exists>s. v = PyStr s)"
    using find_property_value [of "xml_iter root" name d "Some ''delta''" v] assms(1) d
    by (simp add: getProperty_def)
  then show ?thesis
    using v a by auto
qed

section \<open>The ISCE example, computed\<close>

lemma isce_props:
  "getProperty isce_tree ''coordinate1'' = Inr (PropDict isce_lon)"
  "getProperty isce_tree ''coordinate2'' = Inr (PropDict isce_lat)"
  by (simp_all add: ISCE_eval isce_tree_def xprop_def string_eval float_eval isce_lon_def
      isce_lat_def)

lemma isce_files:
  "ISCE_getDisplacementFile isce_fs ''/p'' = Inr ''/p/f.unw.geo''"
  "ISCE_getDisplacementFile nolos_fs ''/p'' = Inr ''/p/f.unw.geo''"
  "ISCEXMLParser isce_parse isce_fs ''/p/f.unw.geo.xml'' = Inr isce_tree"
  "ISCEXMLParser isce_parse nolos_fs ''/p/f.unw.geo.xml'' = Inr isce_tree"
  "ISCE_getLOSFile isce_fs_after ''/p'' = Inr ''/p/los.rdr.geo''"
  "ISCE_getLOSFile nolos_fs_after ''/p'' = Inl los_error"
  "ISCE_getLOSFile nolos_fs ''/p'' = Inl los_error"
  by (simp_all add: ISCE_eval path_eval glob_eval isce_fs_def nolos_fs_def isce_fs_after_def
      nolos_fs_after_def isce_parse_def read_file_def los_error_def)

lemma decode_isce_grid:
  "decode_le isce_grid =
     [Fin False 1 0, Fin False 1 0, Fin False 0 0, Fin False 1 1,
      Fin False 1 0, Fin False 1 0, Fin True 3 (- 1), Fin False 75 1]"
  by (simp add: isce_grid_def bytes_def decode_eval ord_def float_eval)

lemma decode_isce_los:
  "decode_le isce_los =
     [Fin False 0 0, Fin False 0 0, Fin False 0 0, Fin False 1 0,
      Fin False 0 0, Fin False 0 0, Fin False 0 0, Fin False 1 0]"
  by (simp add: isce_los_def bytes_def decode_eval ord_def float_eval)

lemma isce_map:
  "np_memmap Little isce_fs ''/p/f.unw.geo'' = Inr (vector F32 (decode_le isce_grid))"
  "np_memmap Little nolos_fs ''/p/f.unw.geo'' = Inr (vector F32 (decode_le isce_grid))"
  "np_fromfile Little isce_fs_after ''/p/los.rdr.geo'' = Inr (vector F32 (decode_le isce_los))"
  by (simp_all add: np_memmap_def np_fromfile_def read_file_def isce_fs_def nolos_fs_def
      isce_fs_after_def isce_grid_def isce_los_def bytes_def)

lemma isce_write_nan: "write_nan 4 2 0 isce_grid = isce_grid_after"
  by (simp add: isce_grid_def isce_grid_after_def bytes_def decode_eval ord_def float_eval
      nan_le_def)

lemma isce_write_back:
  "disk w = isce_fs \<Longrightarrow> shape shaped = [2, 4] \<Longrightarrow>
     write_back ''/p/f.unw.geo'' shaped 2 w = w\<lparr>disk := isce_fs_after\<rparr>"
  "disk w = nolos_fs \<Longrightarrow> shape shaped = [2, 4] \<Longrightarrow>
     write_back ''/p/f.unw.geo'' shaped 2 w = w\<lparr>disk := nolos_fs_after\<rparr>"
  by (simp_all add: write_back_def slice_bound_def isce_write_nan isce_fs_def isce_fs_after_def
      nolos_fs_def nolos_fs_after_def)

lemmas ISCE_read_eval =
  ISCE_stage_eval abspath_def start_def isce_files isce_props isce_map isce_write_back
  decode_isce_grid decode_isce_los isce_lon_def isce_lat_def numpy_eval state_eval
  slice_bound_def cols_of_def cols_from_def cols_upto_def rows.simps const_eval
  cast_1em2 [unfolded fl_1em2_def] float_eval

lemma isce_read:
  "ISCE_read isce_parse ''/p'' (start isce_fs) =
     (Inr isce_container, \<lparr>container = isce_container, disk = isce_fs_after, logged = []\<rparr>)"
  by (simp add: ISCE_read_eval isce_container_def isce_geo_def grid22_def)


section \<open>The ISCE reader: claims\<close>




text \<open>
  C6 as stated fails: \<open>read\<close> stores \<open>num.abs\<close> of the deltas. In the example the
  metadata delta of the latitude is -0.5 and the container's \<open>dLat\<close> is 0.5.
\<close>

theorem ISCE_drops_delta_sign:
  "fst (ISCE_read isce_parse ''/p'' (start isce_fs)) = Inr isce_container
   \<and> getProperty isce_tree ''coordinate2'' = Inr (PropDict isce_lat)
   \<and> prop_item (PropDict isce_lat) ''delta'' = Inr (PyFloat (Fin True 1 (- 1)))
   \<and> dLat isce_container = NpFloat (Fin False 1 (- 1))"
  by (simp add: isce_read isce_props isce_lat_def isce_container_def isce_geo_def)

text \<open>
  C6 (as amended). For every successful ISCE decode, the container's \<open>dLat\<close> and
  \<open>dLon\<close> are the absolute values of the deltas of \<open>coordinate2\<close> and \<open>coordinate1\<close>
  in the XML metadata: the sign of a negative delta is dropped.
\<close>

theorem ISCE_deltas_absolute:
  assumes "ISCE_read et_parse path w = (Inr c, w')"
  shows "\<exists>disp root coord_lon coord_lat dlat dlon.
           ISCE_getDisplacementFile (disk w) (abspath path) = Inr disp
           \<and> ISCEXMLParser et_parse (disk w) (disp @ ''.xml'') = Inr root
           \<and> getProperty root ''coordinate1'' = Inr coord_lon
           \<and> getProperty root ''coordinate2'' = Inr coord_lat
           \<and> prop_item coord_lat ''delta'' = Inr (PyFloat dlat)
           \<and> prop_item coord_lon ''delta'' = Inr (PyFloat dlon)
           \<and> dLat c = NpFloat (fl_abs dlat)
           \<and> dLon c = NpFloat (fl_abs dlon)"
proof -
  obtain disp root coord_lon coord_lat
    where g: "ISCE_getDisplacementFile (disk w) (abspath path) = Inr disp"
      and x: "ISCEXMLParser et_parse (disk w) (disp @ ''.xml'') = Inr root"
      and p1: "getProperty root ''coordinate1'' = Inr coord_lon"
      and p2: "getProperty root ''coordinate2'' = Inr coord_lat"
      and a2: "abs_delta coord_lat = Inr (dLat c)"
      and a1: "abs_delta coord_lon = Inr (dLon c)"
    using ISCE_read_success [OF assms] by blast
  from abs_delta_float [OF p2 a2] abs_delta_float [OF p1 a1] g x p1 p2
  show ?thesis by blast
qed

theorem ISCE_deltas_absolute_witness:
  "prop_item (PropDict isce_lat) ''delta'' = Inr (PyFloat (Fin True 1 (- 1)))
   \<and> prop_item (PropDict isce_lon) ''delta'' = Inr (PyFloat (Fin False 1 (- 1)))
   \<and> dLat isce_container = NpFloat (fl_abs (Fin True 1 (- 1)))
   \<and> dLon isce_container = NpFloat (fl_abs (Fin False 1 (- 1)))"
  using ISCE_deltas_absolute [OF isce_read]
  by (auto simp: start_def abspath_def isce_files isce_props isce_lat_def isce_lon_def)

text \<open>
  C10. For every successful ISCE decode, with \<open>nlon\<close> the size of \<open>coordinate1\<close> and
  \<open>nlat\<close> the size of \<open>coordinate2\<close> in the metadata, the displacement in the
  container is the right half of the rows of the mapped file, cell by cell, each item
  recoded and then scaled; every kept item that is a zero is NaN in the container.
\<close>

theorem ISCE_zero_is_missing:
  assumes "ISCE_read et_parse path w = (Inr c, w')"
  shows "\<exists>disp root coord_lon coord_lat raw nlat nlon shaped a.
           ISCE_getDisplacementFile (disk w) (abspath path) = Inr disp
           \<and> ISCEXMLParser et_parse (disk w) (disp @ ''.xml'') = Inr root
           \<and> getProperty root ''coordinate1'' = Inr coord_lon
           \<and> getProperty root ''coordinate2'' = Inr coord_lat
           \<and> prop_int coord_lon ''size'' = Inr nlon
           \<and> prop_int coord_lat ''size'' = Inr nlat
           \<and> np_memmap Little (disk w) disp = Inr raw
           \<and> np_reshape raw nlat (nlon * 2) = Inr shaped
           \<and> displacement c = PyArr a
           \<and> cells a = map ISCE_cell (cells (cols_from nlon shaped))
           \<and> (\<forall>i < length (cells a).
                 is_zero (cells (cols_from nlon shaped) ! i) \<longrightarrow> cells a ! i = NaN)"
proof -
  obtain disp root coord_lon coord_lat raw nlat nlon shaped
    where g: "ISCE_getDisplacementFile (disk w) (abspath path) = Inr disp"
      and x: "ISCEXMLParser et_parse (disk w) (disp @ ''.xml'') = Inr root"
      and p: "getProperty root ''coordinate1'' = Inr coord_lon"
        "getProperty root ''coordinate2'' = Inr coord_lat"
        "prop_int coord_lon ''size'' = Inr nlon" "prop_int coord_lat ''size'' = Inr nlat"
      and m: "np_memmap Little (disk w) disp = Inr raw"
      and s: "np_reshape raw nlat (nlon * 2) = Inr shaped"
      and d: "displacement c
                = PyArr (arr_mul (set_nan_where_eq fl_zero (cols_from nlon shaped)) fl_1em2)"
    using ISCE_read_success [OF assms] by blast
  have "dtype raw = F32"
    using m by (auto simp: np_memmap_def vector_def split: sum.splits if_splits)
  then have "dtype shaped = F32"
    using s by (auto simp: np_reshape_def split: option.splits)
  then have t: "dtype (cols_from nlon shaped) = F32"
    by (auto simp: cols_from_def cols_of_def split: list.splits)
  have z: "ISCE_cell y = NaN" if "is_zero y" for y
    using that by (cases y) (simp_all add: ISCE_cell_def recode_def fl_zero_def)
  have c: "cells (arr_mul (set_nan_where_eq fl_zero (cols_from nlon shaped)) fl_1em2)
             = map ISCE_cell (cells (cols_from nlon shaped))"
    by (simp add: arr_mul_def set_nan_where_eq_def t ISCE_cell_def)
  have "\<forall>i < length (cells (arr_mul (set_nan_where_eq fl_zero (cols_from nlon shaped)) fl_1em2)).
          is_zero (cells (cols_from nlon shaped) ! i)
          \<longrightarrow> cells (arr_mul (set_nan_where_eq fl_zero (cols_from nlon shaped)) fl_1em2) ! i = NaN"
    by (simp add: c z)
  with g x p m s d c show ?thesis by blast
qed

text \<open>
  In the example the kept items are 0.0, 2.0, -1.5 and 150.0; the first is a zero,
  and the first cell of the container's displacement is NaN.
\<close>

theorem ISCE_zero_is_missing_witness:
  "cells (cols_from 2 \<lparr>dtype = F32, shape = [2, 4], cells = decode_le isce_grid\<rparr>)
     = [Fin False 0 0, Fin False 1 1, Fin True 3 (- 1), Fin False 75 1]
   \<and> (\<exists>a. displacement isce_container = PyArr a \<and> 0 < length (cells a) \<and> cells a ! 0 = NaN)"
proof -
  have k: "cells (cols_from 2 \<lparr>dtype = F32, shape = [2, 4], cells = decode_le isce_grid\<rparr>)
             = [Fin False 0 0, Fin False 1 1, Fin True 3 (- 1), Fin False 75 1]"
    by (simp add: cols_from_def cols_of_def slice_bound_def rows.simps decode_isce_grid)
  have n: "prop_int (PropDict isce_lon) ''size'' = Inr 2"
    "prop_int (PropDict isce_lat) ''size'' = Inr 2"
    by (simp_all add: prop_int_def isce_lon_def isce_lat_def)
  have r: "np_reshape (vector F32 (decode_le isce_grid)) 2 4
             = Inr \<lparr>dtype = F32, shape = [2, 4], cells = decode_le isce_grid\<rparr>"
    by (simp add: np_reshape_def reshape_dims_def vector_def decode_isce_grid)
  obtain a where d: "displacement isce_container = PyArr a"
    and c: "cells a = map ISCE_cell
              (cells (cols_from 2 \<lparr>dtype = F32, shape = [2, 4], cells = decode_le isce_grid\<rparr>))"
    and z: "\<forall>i < length (cells a).
              is_zero (cells (cols_from 2 \<lparr>dtype = F32, shape = [2, 4],
                                            cells = decode_le isce_grid\<rparr>) ! i)
              \<longrightarrow> cells a ! i = NaN"
    using ISCE_zero_is_missing [OF isce_read]
    by (auto simp: start_def abspath_def isce_files isce_props isce_map n r)
  have l: "0 < length (cells a)"
    by (simp add: c k)
  then have "cells a ! 0 = NaN"
    using z by (auto simp: k)
  then show ?thesis
    using k d l by simp
qed

section \<open>The Matlab reader: the degraded mode\<close>

lemma fallback_result:
  assumes "cells e = e0 # e1 # es" "cells n = n0 # n1 # ns"
  shows "\<exists>c w'. fallback e n w = (Inr c, w')
           \<and> llLat c = PyFloat fl_zero \<and> llLon c = PyFloat fl_zero
           \<and> dLat c = NpFloat (fl_div F64 (fl_sub (dtype e) e1 e0) fl_110e3)
           \<and> dLon c = NpFloat (fl_div F64 (fl_sub (dtype n) n1 n0) fl_110e3)
           \<and> last (logged w') = (Warning, degraded_warning)"
  using assms
  by (simp add: fallback_def fallback_dLat_def fallback_dLon_def spacing_def state_eval)

lemma locate_degraded:
  assumes ce: "cells e = e0 # e1 # es" and cn: "cells n = n0 # n1 # ns"
    and mn: "np_min e = Inr emin" "np_min n = Inr nmin"
    and mx: "np_max e = Inr emax" "np_max n = Inr nmax"
    and out: "to_latlon emin nmin 32 ''N'' = None \<or> to_latlon emax nmax 32 ''N'' = None"
  shows "\<exists>c w'. locate to_latlon e n w = (Inr c, w')
           \<and> llLat c = PyFloat fl_zero \<and> llLon c = PyFloat fl_zero
           \<and> dLat c = NpFloat (fl_div F64 (fl_sub (dtype e) e1 e0) fl_110e3)
           \<and> dLon c = NpFloat (fl_div F64 (fl_sub (dtype n) n1 n0) fl_110e3)
           \<and> last (logged w') = (Warning, degraded_warning)"
proof (cases "to_latlon emin nmin 32 ''N''")
  case None
  then have "locate to_latlon e n w = fallback e n w"
    by (simp add: locate_def mn)
  then show ?thesis
    using fallback_result [OF ce cn] by simp
next
  case (Some ll)
  then have "to_latlon emax nmax 32 ''N'' = None"
    using out by simp
  then have "locate to_latlon e n w =
      fallback e n (set_llLon (snd ll) (set_llLat (fst ll) w))"
    using Some by (cases ll) (simp add: locate_def upper_right_def mn mx)
  then show ?thesis
    using fallback_result [OF ce cn] by simp
qed

text \<open>
  C7 (as amended). When the UTM conversion of the lower-left or of the upper-right
  corner raises its out-of-range error and both coordinate vectors have at least two
  cells, \<open>Matlab.read\<close> does not fail: it returns the container with \<open>llLat\<close> and
  \<open>llLon\<close> 0.0, \<open>dLat\<close> the spacing \<open>(utm_e[1] - utm_e[0]) / 110e3\<close> and \<open>dLon\<close> the
  spacing \<open>(utm_n[1] - utm_n[0]) / 110e3\<close>, and its last log entry is the warning.
  Nothing makes the two spacings differ from zero.
\<close>

theorem Matlab_degraded_mode:
  assumes ld: "loadmat (disk w) filename = Inr mat"
    and sc: "each_item mat (w, None, None) = Inr (w1, Some ea, na)"
    and rs: "rescale ea na = Inr (e, n)"
    and ce: "cells e = e0 # e1 # es" and cn: "cells n = n0 # n1 # ns"
    and mn: "np_min e = Inr emin" "np_min n = Inr nmin"
    and mx: "np_max e = Inr emax" "np_max n = Inr nmax"
    and out: "to_latlon emin nmin 32 ''N'' = None \<or> to_latlon emax nmax 32 ''N'' = None"
  shows "\<exists>c w'. Matlab_read loadmat to_latlon filename w = (Inr c, w')
           \<and> llLat c = PyFloat fl_zero \<and> llLon c = PyFloat fl_zero
           \<and> dLat c = NpFloat (fl_div F64 (fl_sub (dtype e) e1 e0) fl_110e3)
           \<and> dLon c = NpFloat (fl_div F64 (fl_sub (dtype n) n1 n0) fl_110e3)
           \<and> last (logged w') = (Warning, degraded_warning)"
proof -
  have "Matlab_read loadmat to_latlon filename w = locate to_latlon e n w1"
    by (simp add: Matlab_read_def read_items_def read_vectors_def ld sc rs)
  then show ?thesis
    using locate_degraded [where to_latlon = to_latlon, OF ce cn mn mx out] by simp
qed

section \<open>The Matlab example, computed\<close>

lemmas Matlab_eval =
  container_keys_def store_key_def assign_def np_min_def np_max_def small_n_def small_def
  times_1e3_def rescale_def spacing_def degraded_warning_def fallback_dLon_def
  fallback_dLat_def fallback_def delta_over_def try_dLon_def try_dLat_def
  upper_right_def locate_def read_vectors_def read_items_def Matlab_read_def

lemma mat_scan:
  "each_item scene_mat (start mat_fs, None, None) = Inr (mat_scanned, Some xx_flat, Some yy_flat)"
  by (simp add: scene_mat_def Matlab_eval state_eval start_def grid64_def mat_scanned_def
      xx_flat_def yy_flat_def)

lemma mat_rescale: "rescale xx_flat (Some yy_flat) = Inr (xx_flat, yy_flat)"
  by (simp add: Matlab_eval xx_flat_def yy_flat_def const_eval float_eval)

lemma mat_corners:
  "np_min xx_flat = Inr (Fin False 15625 7)" "np_min yy_flat = Inr (Fin False 78125 6)"
  "np_max xx_flat = Inr (Fin False 250125 3)" "np_max yy_flat = Inr (Fin False 625125 3)"
  by (simp_all add: np_min_def np_max_def xx_flat_def yy_flat_def float_eval)

lemma mat_read:
  "Matlab_read load_scene_mat refuse ''/m/scene.mat'' (start mat_fs) =
     (Inr mat_container,
      \<lparr>container = mat_container, disk = mat_fs, logged = [(Warning, degraded_warning)]\<rparr>)"
proof -
  have "Matlab_read load_scene_mat refuse ''/m/scene.mat'' (start mat_fs)
          = fallback xx_flat yy_flat mat_scanned"
    by (simp add: Matlab_read_def read_items_def read_vectors_def locate_def load_scene_mat_def
        is_file_def mat_fs_def start_def mat_scan [unfolded start_def mat_fs_def] mat_rescale
        mat_corners refuse_def)
  also have "\<dots> = (Inr mat_container,
      \<lparr>container = mat_container, disk = mat_fs, logged = [(Warning, degraded_warning)]\<rparr>)"
    by (simp add: fallback_def fallback_dLat_def fallback_dLon_def spacing_def xx_flat_def
        yy_flat_def mat_scanned_def state_eval mat_container_def const_eval float_eval)
  finally show ?thesis .
qed

text \<open>With a coordinate vector of one cell the \<open>except\<close> branch itself fails.\<close>

lemma fallback_short_vector:
  "cells e = [x] \<Longrightarrow>
     fallback e n w =
       (Inl IndexError, set_llLon (PyFloat fl_zero) (set_llLat (PyFloat fl_zero) w))"
  by (simp add: fallback_def fallback_dLat_def spacing_def)

section \<open>The Matlab reader: claims\<close>

theorem Matlab_degraded_mode_witness:
  "\<exists>c w'. Matlab_read load_scene_mat refuse ''/m/scene.mat'' (start mat_fs) = (Inr c, w')
     \<and> llLat c = PyFloat fl_zero \<and> llLon c = PyFloat fl_zero
     \<and> dLat c = NpFloat (fl_div F64 (fl_sub F64 (Fin False 250125 3) (Fin False 15625 7)) fl_110e3)
     \<and> dLon c = NpFloat (fl_div F64 (fl_sub F64 (Fin False 78125 6) (Fin False 78125 6)) fl_110e3)
     \<and> last (logged w') = (Warning, degraded_warning)"
proof -
  have ld: "load_scene_mat (disk (start mat_fs)) ''/m/scene.mat'' = Inr scene_mat"
    by (simp add: load_scene_mat_def is_file_def start_def mat_fs_def)
  have ce: "cells xx_flat = Fin False 15625 7 # Fin False 250125 3
              # [Fin False 15625 7, Fin False 250125 3]"
    by (simp add: xx_flat_def)
  have cn: "cells yy_flat = Fin False 78125 6 # Fin False 78125 6
              # [Fin False 625125 3, Fin False 625125 3]"
    by (simp add: yy_flat_def)
  have out: "refuse (Fin False 15625 7) (Fin False 78125 6) 32 ''N'' = None
             \<or> refuse (Fin False 250125 3) (Fin False 625125 3) 32 ''N'' = None"
    by (simp add: refuse_def)
  have dt: "dtype xx_flat = F64" "dtype yy_flat = F64"
    by (simp_all add: xx_flat_def yy_flat_def)
  show ?thesis
    using Matlab_degraded_mode [where to_latlon = refuse and loadmat = load_scene_mat,
        OF ld mat_scan mat_rescale ce cn mat_corners out]
    by (simp add: dt)
qed

text \<open>
  C7 as stated fails: the spacings need not be non-zero. In the example the
  conversion refuses the coordinates and \<open>read\<close> returns the container, but the first
  two cells of the flattened \<open>yy\<close> grid are equal and \<open>dLon\<close> is 0.0.
\<close>

theorem Matlab_degraded_zero_delta:
  "refuse (Fin False 15625 7) (Fin False 78125 6) 32 ''N'' = None
   \<and> fst (Matlab_read load_scene_mat refuse ''/m/scene.mat'' (start mat_fs)) = Inr mat_container
   \<and> llLat mat_container = PyFloat (Fin False 0 0)
   \<and> llLon mat_container = PyFloat (Fin False 0 0)
   \<and> dLon mat_container = NpFloat (Fin False 0 0)"
  by (simp add: mat_read refuse_def mat_container_def)

section \<open>\<open>validate\<close>\<close>

text \<open>No \<open>validate\<close> changes the container or the file system.\<close>

lemma Gamma_validate_frame:
  assumes "Gamma_validate filename kw w = (r, w')"
  shows "container w' = container w \<and> disk w' = disk w"
proof -
  obtain r1 w1 where g: "Gamma_getParameterFile filename w = (r1, w1)"
    by (cases "Gamma_getParameterFile filename w")
  have f: "container w1 = container w \<and> disk w1 = disk w"
    using getParameterFile_frame [OF g] by simp
  show ?thesis
    using assms g f
    by (auto simp: Gamma_validate_def validate_par_def split: sum.splits exn.splits)
qed

lemma other_validate_frame:
  "ISCE_validate filename w = (r, w') \<Longrightarrow> w' = w"
  "GMTSAR_validate filename w = (r, w') \<Longrightarrow> w' = w"
  "Matlab_validate filename w = (r, w') \<Longrightarrow> w' = w"
  by (auto simp: ISCE_validate_def GMTSAR_validate_def Matlab_validate_def
      split: sum.splits exn.splits if_splits)

text \<open>The ISCE, GMTSAR and Matlab readers always answer with a boolean.\<close>

lemma ISCE_getDisplacementFile_error:
  "ISCE_getDisplacementFile fs p = Inl e \<Longrightarrow> \<exists>m. e = ImportError m"
  by (auto simp: ISCE_getDisplacementFile_def with_xml_def split: list.splits if_splits)

lemma ISCE_getLOSFile_error:
  "ISCE_getLOSFile fs p = Inl e \<Longrightarrow> \<exists>m. e = ImportError m"
  by (auto simp: ISCE_getLOSFile_def split: list.splits)

lemma GMTSAR_getDisplacementFile_error:
  "GMTSAR_getDisplacementFile fs p = Inl e \<Longrightarrow> \<exists>m. e = ImportError m"
  by (auto simp: GMTSAR_getDisplacementFile_def split: list.splits if_splits)

lemma other_validate_total:
  "\<exists>b. ISCE_validate filename w = (Inr b, w)"
  "\<exists>b. GMTSAR_validate filename w = (Inr b, w)"
  "\<exists>b. Matlab_validate filename w = (Inr b, w)"
proof -
  show "\<exists>b. ISCE_validate filename w = (Inr b, w)"
    by (auto simp: ISCE_validate_def split: sum.splits exn.splits
        dest: ISCE_getDisplacementFile_error ISCE_getLOSFile_error)
  show "\<exists>b. GMTSAR_validate filename w = (Inr b, w)"
    by (auto simp: GMTSAR_validate_def split: sum.splits exn.splits
        dest: GMTSAR_getDisplacementFile_error)
  show "\<exists>b. Matlab_validate filename w = (Inr b, w)"
    by (auto simp: Matlab_validate_def)
qed

text \<open>
  The Gamma reader answers with a boolean when every \<open>*par\<close> entry of the directory,
  and the parameter file passed to it, can be opened.
\<close>

lemma parse_file_error:
  "is_file fs f \<Longrightarrow> Gamma_parseParameterFile fs f = Inl e \<Longrightarrow> \<exists>m. e = ImportError m"
  by (auto simp: Gamma_parseParameterFile_def read_file_def is_file_def check_required_find
      split: option.splits node.splits)

lemma try_par_files_error:
  "\<forall>f \<in> set ps. is_file (disk w) f \<Longrightarrow> try_par_files ps w = (Inl e, w1)
     \<Longrightarrow> \<exists>m. e = ImportError m"
proof (induction ps)
  case Nil
  then show ?case by auto
next
  case (Cons f ps)
  then show ?case
    using parse_file_error [of "disk w" f]
    by (auto split: sum.splits exn.splits)
qed

lemma try_par_files_found:
  "try_par_files ps w = (Inr f, w1) \<Longrightarrow> \<exists>par. Gamma_parseParameterFile (disk w) f = Inr par"
  by (induction ps) (auto split: sum.splits exn.splits)

lemma Gamma_validate_total:
  assumes "\<forall>f \<in> set (glob (disk w) (dirname (realpath filename) @ ''/*par'')). is_file (disk w) f"
    and "\<forall>p. kw = Some p \<longrightarrow> is_file (disk w) p"
  shows "\<exists>b w'. Gamma_validate filename kw w = (Inr b, w')"
proof (cases "Gamma_getParameterFile filename w")
  case (Pair r1 w1)
  have d: "disk w1 = disk w"
    using getParameterFile_frame [OF Pair] by simp
  show ?thesis
  proof (cases r1)
    case (Inl e)
    then obtain m where "e = ImportError m"
      using try_par_files_error [OF assms(1)] Pair by (auto simp: Gamma_getParameterFile_def)
    then show ?thesis
      using Pair Inl by (auto simp: Gamma_validate_def)
  next
    case (Inr dflt)
    with Pair have "try_par_files (glob (disk w) (dirname (realpath filename) @ ''/*par'')) w
                      = (Inr dflt, w1)"
      by (simp add: Gamma_getParameterFile_def)
    from try_par_files_found [OF this]
    obtain par where p: "Gamma_parseParameterFile (disk w) dflt = Inr par"
      by blast
    show ?thesis
    proof (cases kw)
      case None
      then show ?thesis
        using Pair Inr p d by (auto simp: Gamma_validate_def validate_par_def pop_par_file_def)
    next
      case (Some q)
      then have "is_file (disk w1) q"
        using assms(2) d by simp
      then show ?thesis
        using Pair Inr Some parse_file_error [of "disk w1" q]
        by (auto simp: Gamma_validate_def validate_par_def pop_par_file_def
            split: sum.splits exn.splits)
    qed
  qed
qed

section \<open>\<open>validate\<close>: claims\<close>

text \<open>
  C9 fails on the code for the Gamma reader. \<open>Gamma.validate\<close> catches \<open>ImportError\<close>
  only, and \<open>_parseParameterFile\<close> opens every entry that \<open>glob\<close> reports for \<open>*par\<close>.
  In the directory \<open>/d\<close> with a displacement file and a subdirectory \<open>oldpar\<close>, which
  is no Gamma product, \<open>validate\<close> does not return \<open>False\<close>: the \<open>IOError\<close> of opening
  the directory leaves it. The state is unchanged.
\<close>

theorem Gamma_validate_raises:
  "glob odd_fs ''/d/*par'' = [''/d/oldpar'']
   \<and> Gamma_validate ''/d/scene.unw'' None (start odd_fs)
       = (Inl (IOError ''/d/oldpar''), start odd_fs)"
proof -
  have g: "glob odd_fs ''/d/*par'' = [''/d/oldpar'']"
    by (simp add: path_eval glob_eval odd_fs_def)
  have p: "Gamma_parseParameterFile odd_fs ''/d/oldpar'' = Inl (IOError ''/d/oldpar'')"
    by (simp add: Gamma_parseParameterFile_def read_file_def odd_fs_def)
  have "Gamma_getParameterFile ''/d/scene.unw'' (start odd_fs)
          = (Inl (IOError ''/d/oldpar''), start odd_fs)"
    by (simp add: Gamma_getParameterFile_def path_eval start_def g p)
  then show ?thesis
    using g by (simp add: Gamma_validate_def)
qed

end
